theory Spec2Isabelle
  imports Complex_Main
begin

section \<open>Host dates\<close>

text \<open>
  The program manipulates subscription dates through the host's \<^verbatim>\<open>Date\<close> object, read and
  written in local time. A date is modelled by its local calendar fields, named after the
  getters the program calls: \<open>getFullYear\<close>, \<open>getMonth\<close> (0 is January, 11 is December),
  \<open>getDate\<close> (the day of the month, from 1) and the time within the day in milliseconds.
  Daylight-saving shifts are outside the model.
\<close>

record jsdate =
  getFullYear :: int
  getMonth :: int
  getDate :: int
  timeInDay :: int

definition leapYear :: "int \<Rightarrow> bool" where
  "leapYear y = (if y mod 400 = 0 then True else if y mod 100 = 0 then False else y mod 4 = 0)"

definition daysInMonth :: "int \<Rightarrow> int \<Rightarrow> int" where
  "daysInMonth y m =
     (if m = 1 then (if leapYear y then 29 else 28)
      else if m = 3 then 30 else if m = 5 then 30 else if m = 8 then 30 else if m = 10 then 30
      else 31)"

text \<open>
  The host builds a date from a year, a month in 0..11 and a day number by counting days from
  the first of that month: a day past the end of the month lands in a following month.
  (The program only passes day numbers read from a date, so days below 1 do not occur.)
\<close>

function rollDays :: "int \<Rightarrow> int \<Rightarrow> int \<Rightarrow> int \<times> int \<times> int" where
  "rollDays y m d =
     (if daysInMonth y m < d
      then (if m = 11 then rollDays (y + 1) 0 (d - daysInMonth y m)
            else rollDays y (m + 1) (d - daysInMonth y m))
      else (y, m, d))"
  by pat_completeness auto
termination
  by (relation "measure (\<lambda>(y, m, d). nat d)") (auto simp: daysInMonth_def split: if_splits)

declare rollDays.simps [simp del]

text \<open>The host's date constructor: the month may be any integer, whole years are carried.\<close>

definition makeDate :: "int \<Rightarrow> int \<Rightarrow> int \<Rightarrow> int \<Rightarrow> jsdate" where
  "makeDate y m d t =
     (case rollDays (y + m div 12) (m mod 12) d of
        (y', m', d') \<Rightarrow> \<lparr>getFullYear = y', getMonth = m', getDate = d', timeInDay = t\<rparr>)"

definition setMonth :: "jsdate \<Rightarrow> int \<Rightarrow> jsdate" where
  "setMonth dt m = makeDate (getFullYear dt) m (getDate dt) (timeInDay dt)"

definition setFullYear :: "jsdate \<Rightarrow> int \<Rightarrow> jsdate" where
  "setFullYear dt y = makeDate y (getMonth dt) (getDate dt) (timeInDay dt)"

text \<open>\<open>a < b\<close> on two dates compares their instants.\<close>

definition dateLess :: "jsdate \<Rightarrow> jsdate \<Rightarrow> bool" where
  "dateLess a b =
     (if getFullYear a = getFullYear b
      then (if getMonth a = getMonth b
            then (if getDate a = getDate b then timeInDay a < timeInDay b
                  else getDate a < getDate b)
            else getMonth a < getMonth b)
      else getFullYear a < getFullYear b)"

section \<open>Billing periods (fetchCursorStats)\<close>

definition monthsSinceStart :: "jsdate \<Rightarrow> jsdate \<Rightarrow> int" where
  "monthsSinceStart subscriptionStart currentDate =
     (getFullYear currentDate - getFullYear subscriptionStart) * 12
     + (getMonth currentDate - getMonth subscriptionStart)"

text \<open>The period start before the comparison with the current date.\<close>

definition tentativePeriodStart :: "jsdate \<Rightarrow> jsdate \<Rightarrow> jsdate" where
  "tentativePeriodStart subscriptionStart currentDate =
     (let k = monthsSinceStart subscriptionStart currentDate;
          c1 = setMonth subscriptionStart (getMonth subscriptionStart + k)
      in setFullYear c1 (getFullYear subscriptionStart + (getMonth subscriptionStart + k) div 12))"

definition currentPeriodStart :: "jsdate \<Rightarrow> jsdate \<Rightarrow> jsdate" where
  "currentPeriodStart subscriptionStart currentDate =
     (let c = tentativePeriodStart subscriptionStart currentDate
      in if dateLess currentDate c then setMonth c (getMonth c - 1) else c)"

definition previousPeriodStart :: "jsdate \<Rightarrow> jsdate \<Rightarrow> jsdate" where
  "previousPeriodStart subscriptionStart currentDate =
     (let c = currentPeriodStart subscriptionStart currentDate
      in setMonth c (getMonth c - 1))"

section \<open>Host strings and regular expressions\<close>

text \<open>
  Strings are lists of 8-bit characters. The character classes are those of the host's
  regular expressions restricted to that range; case folding is the one of ASCII letters.
\<close>

definition isDigit :: "char \<Rightarrow> bool" where
  "isDigit c = (48 \<le> (of_char c :: nat) \<and> (of_char c :: nat) \<le> 57)"

definition isUpper :: "char \<Rightarrow> bool" where
  "isUpper c = (65 \<le> (of_char c :: nat) \<and> (of_char c :: nat) \<le> 90)"

definition isLower :: "char \<Rightarrow> bool" where
  "isLower c = (97 \<le> (of_char c :: nat) \<and> (of_char c :: nat) \<le> 122)"

text \<open>\<^verbatim>\<open>\w\<close>: a letter, a digit or the underscore.\<close>

definition isWord :: "char \<Rightarrow> bool" where
  "isWord c = (isDigit c \<or> isUpper c \<or> isLower c \<or> c = CHR ''_'')"

text \<open>\<^verbatim>\<open>\s\<close>, also what \<^verbatim>\<open>trim\<close> removes: tab, line feed, vertical tab, form feed,
  carriage return, space and the no-break space.\<close>

definition isSpace :: "char \<Rightarrow> bool" where
  "isSpace c = ((9 \<le> (of_char c :: nat) \<and> (of_char c :: nat) \<le> 13)
     \<or> (of_char c :: nat) = 32 \<or> (of_char c :: nat) = 160)"

text \<open>The dot of a pattern: any character but a line terminator.\<close>

definition isDot :: "char \<Rightarrow> bool" where
  "isDot c = (if (of_char c :: nat) = 10 then False else if (of_char c :: nat) = 13 then False else True)"

definition toLower :: "char \<Rightarrow> char" where
  "toLower c = (if isUpper c then char_of ((of_char c :: nat) + 32) else c)"

definition toLowerCase :: "string \<Rightarrow> string" where
  "toLowerCase s = map toLower s"

fun startsWith :: "string \<Rightarrow> string \<Rightarrow> bool" where
  "startsWith s [] = True"
| "startsWith [] (p # ps) = False"
| "startsWith (c # cs) (p # ps) = (if c = p then startsWith cs ps else False)"

text \<open>\<^verbatim>\<open>s.includes(p)\<close>: \<open>p\<close> occurs in \<open>s\<close> as a contiguous run.\<close>

fun str_includes :: "string \<Rightarrow> string \<Rightarrow> bool" where
  "str_includes [] p = (p = [])"
| "str_includes (c # cs) p = (if startsWith (c # cs) p then True else str_includes cs p)"

definition trim :: "string \<Rightarrow> string" where
  "trim s = rev (dropWhile isSpace (rev (dropWhile isSpace s)))"

definition digitValue :: "char \<Rightarrow> nat" where
  "digitValue c = (of_char c :: nat) - 48"

text \<open>\<^verbatim>\<open>parseInt\<close> on a run of decimal digits (the only strings the program passes are the
  digit groups of its patterns). Numbers are unbounded here.\<close>

definition parseInt :: "string \<Rightarrow> nat" where
  "parseInt ds = foldl (\<lambda>n c. 10 * n + digitValue c) 0 ds"

text \<open>
  A pattern is run by backtracking. A matcher state holds the texts of the capturing groups
  closed so far, the character before the current position (for \<^verbatim>\<open>\b\<close>) and the input
  still to be read. A pattern maps a state to the states in which a match of it can end, in
  the order in which backtracking tries them; the first is the match the host reports.
\<close>

type_synonym mstate = "string list \<times> char option \<times> string"
type_synonym pattern = "mstate \<Rightarrow> mstate list"

definition oneChar :: "(char \<Rightarrow> bool) \<Rightarrow> pattern" where
  "oneChar P st = (case st of (caps, prev, rest) \<Rightarrow>
     (case rest of [] \<Rightarrow> [] | c # cs \<Rightarrow> if P c then [(caps, Some c, cs)] else []))"

text \<open>A literal text; under the flag \<^verbatim>\<open>i\<close> letters match in either case.\<close>

fun lit :: "string \<Rightarrow> pattern" where
  "lit [] st = [st]"
| "lit (p # ps) (caps, prev, []) = []"
| "lit (p # ps) (caps, prev, c # cs) = (if c = p then lit ps (caps, Some c, cs) else [])"

fun liti :: "string \<Rightarrow> pattern" where
  "liti [] st = [st]"
| "liti (p # ps) (caps, prev, []) = []"
| "liti (p # ps) (caps, prev, c # cs) =
     (if toLower c = toLower p then liti ps (caps, Some c, cs) else [])"

definition sq :: "pattern \<Rightarrow> pattern \<Rightarrow> pattern" where
  "sq a b st = concat (map b (a st))"

definition eps :: pattern where
  "eps st = [st]"

definition seqs :: "pattern list \<Rightarrow> pattern" where
  "seqs ps = foldr sq ps eps"

definition alt :: "pattern \<Rightarrow> pattern \<Rightarrow> pattern" where
  "alt a b st = a st @ b st"

definition none :: pattern where
  "none st = []"

definition alts :: "pattern list \<Rightarrow> pattern" where
  "alts ps = foldr alt ps none"

text \<open>\<^verbatim>\<open>(?:a)?\<close>: first with \<open>a\<close>, then without.\<close>

definition opt :: "pattern \<Rightarrow> pattern" where
  "opt a st = a st @ [st]"

text \<open>\<^verbatim>\<open>[class]+\<close>, greedy: the longest run first, then shorter ones down to one character.\<close>

fun plusGreedy :: "(char \<Rightarrow> bool) \<Rightarrow> pattern" where
  "plusGreedy P (caps, prev, []) = []"
| "plusGreedy P (caps, prev, c # cs) =
     (if P c then plusGreedy P (caps, Some c, cs) @ [(caps, Some c, cs)] else [])"

text \<open>\<^verbatim>\<open>[class]+?\<close>, lazy: one character first, then longer runs.\<close>

fun plusLazy :: "(char \<Rightarrow> bool) \<Rightarrow> pattern" where
  "plusLazy P (caps, prev, []) = []"
| "plusLazy P (caps, prev, c # cs) =
     (if P c then (caps, Some c, cs) # plusLazy P (caps, Some c, cs) else [])"

text \<open>\<^verbatim>\<open>$\<close> without the multi-line flag: the end of the input.\<close>

definition eol :: pattern where
  "eol st = (case st of (caps, prev, rest) \<Rightarrow> if rest = [] then [st] else [])"

definition isWordOpt :: "char option \<Rightarrow> bool" where
  "isWordOpt c = (case c of None \<Rightarrow> False | Some x \<Rightarrow> isWord x)"

text \<open>\<^verbatim>\<open>\b\<close>: exactly one of the characters around the position is a word character.\<close>

definition wordBoundary :: pattern where
  "wordBoundary st = (case st of (caps, prev, rest) \<Rightarrow>
     if isWordOpt prev = isWordOpt (case rest of [] \<Rightarrow> None | c # cs \<Rightarrow> Some c) then [] else [st])"

text \<open>A capturing group: the text its pattern consumed is appended to the captures.\<close>

definition grp :: "pattern \<Rightarrow> pattern" where
  "grp a st = (case st of (caps, prev, rest) \<Rightarrow>
     map (\<lambda>st'. case st' of (caps', prev', rest') \<Rightarrow>
            (caps' @ [take (length rest - length rest') rest], prev', rest')) (a st))"

text \<open>A pattern that starts with \<^verbatim>\<open>^\<close> is tried at the start of the input only.\<close>

definition matchStart :: "pattern \<Rightarrow> string \<Rightarrow> string list option" where
  "matchStart a s = (case a ([], None, s) of [] \<Rightarrow> None | st # sts \<Rightarrow> Some (fst st))"

text \<open>A pattern without \<^verbatim>\<open>^\<close> is tried at every position, from the left.\<close>

fun searchFrom :: "pattern \<Rightarrow> char option \<Rightarrow> string \<Rightarrow> string list option" where
  "searchFrom a prev [] = (case a ([], prev, []) of [] \<Rightarrow> None | st # sts \<Rightarrow> Some (fst st))"
| "searchFrom a prev (c # cs) =
     (case a ([], prev, c # cs) of [] \<Rightarrow> searchFrom a (Some c) cs | st # sts \<Rightarrow> Some (fst st))"

definition search :: "pattern \<Rightarrow> string \<Rightarrow> string list option" where
  "search a s = searchFrom a None s"

text \<open>Group \<open>i\<close> of a match (every group of the patterns below takes part in every match).\<close>

definition capture :: "nat \<Rightarrow> string list \<Rightarrow> string" where
  "capture i caps = (if 1 \<le> i \<and> i \<le> length caps then caps ! (i - 1) else [])"

section \<open>Monthly invoices (fetchMonthData)\<close>

text \<open>
  Modelled from the spec: the type declarations of \<^verbatim>\<open>interfaces/types\<close> are not among the
  sources. A raw invoice line has a description and an optional amount in cents; the invoice
  payload has an optional sequence of lines and the unpaid-invoice flag.
\<close>

record RawItem =
  rawDescription :: string
  cents :: "int option"

record InvoiceResponse =
  responseItems :: "RawItem list option"
  responseHasUnpaid :: bool

text \<open>
  The texts of the message catalogue (function \<^verbatim>\<open>t\<close>) are not among the sources; the three
  the parser stores as model names are parameters.
\<close>

record catalogue =
  toolCalls :: string
  fastPremium :: string
  unknownModel :: string

text \<open>
  A usage item as the program stores it. The displayed \<open>calculation\<close> text is kept by its
  parts, without its padding: the running payment of a mid-month line, or the request count,
  the cost per request in dollars and the mark of a token-based line. \<open>totalDollars\<close> is the
  number that the stored text denotes once its dollar sign is removed. The model name and the
  discount flag are absent on a mid-month line.
\<close>

datatype calculation = MidMonthCalc rat | RequestCalc nat "rat option" bool

record UsageItem =
  calculation :: calculation
  totalDollars :: rat
  description :: string
  modelNameForTooltip :: "string option"
  isDiscounted :: "bool option"

record MonthData =
  items :: "UsageItem list"
  hasUnpaidMidMonthInvoice :: bool
  midMonthPayment :: rat

text \<open>A division of the host: a zero divisor gives no finite number (\<open>None\<close>).\<close>

definition jsDivide :: "rat \<Rightarrow> rat \<Rightarrow> rat option" where
  "jsDivide a b = (if b = 0 then None else Some (a / b))"

text \<open>\<^verbatim>\<open>/^(\d+) token-based usage calls to ([\w.-]+), totalling: \$(?:[\d.]+)/\<close>\<close>

definition tokenBasedPattern :: pattern where
  "tokenBasedPattern =
     seqs [grp (plusGreedy isDigit), lit '' token-based usage calls to '',
           grp (plusGreedy (\<lambda>c. isWord c \<or> c = CHR ''.'' \<or> c = CHR ''-'')),
           lit '', totalling: $'', plusGreedy (\<lambda>c. isDigit c \<or> c = CHR ''.'')]"

text \<open>\<^verbatim>\<open>/^(\d+)\s+(.+?)(?: request| calls)?(?: beyond|\*| per|$)/i\<close>\<close>

definition originalPattern :: pattern where
  "originalPattern =
     seqs [grp (plusGreedy isDigit), plusGreedy isSpace, grp (plusLazy isDot),
           opt (alt (liti '' request'') (liti '' calls'')),
           alts [liti '' beyond'', lit ''*'', liti '' per'', eol]]"

text \<open>
  \<^verbatim>\<open>/\b(?:discounted\s+)?(claude-(?:3-(?:opus|sonnet|haiku)|3\.[57]-sonnet(?:-[\w-]+)?(?:-max)?|4-sonnet(?:-thinking)?)|gpt-(?:4(?:\.\d+|o-128k|-preview)?|3\.5-turbo)|gemini-(?:1\.5-flash-500k|2[\.-]5-pro-(?:exp-\d{2}-\d{2}|preview-\d{2}-\d{2}|exp-max))|o[134](?:-mini)?)\b/i\<close>
\<close>

definition claudePattern :: pattern where
  "claudePattern =
     sq (liti ''claude-'')
        (alts [sq (liti ''3-'') (alts [liti ''opus'', liti ''sonnet'', liti ''haiku'']),
               seqs [liti ''3.'', oneChar (\<lambda>c. c = CHR ''5'' \<or> c = CHR ''7''), liti ''-sonnet'',
                     opt (sq (liti ''-'') (plusGreedy (\<lambda>c. isWord c \<or> c = CHR ''-''))),
                     opt (liti ''-max'')],
               sq (liti ''4-sonnet'') (opt (liti ''-thinking''))])"

definition gptPattern :: pattern where
  "gptPattern =
     sq (liti ''gpt-'')
        (alt (sq (liti ''4'')
                 (opt (alts [sq (liti ''.'') (plusGreedy isDigit), liti ''o-128k'', liti ''-preview''])))
             (liti ''3.5-turbo''))"

definition twoDigits :: pattern where
  "twoDigits = sq (oneChar isDigit) (oneChar isDigit)"

definition geminiPattern :: pattern where
  "geminiPattern =
     sq (liti ''gemini-'')
        (alt (liti ''1.5-flash-500k'')
             (seqs [liti ''2'', oneChar (\<lambda>c. c = CHR ''.'' \<or> c = CHR ''-''), liti ''5-pro-'',
                    alts [seqs [liti ''exp-'', twoDigits, liti ''-'', twoDigits],
                          seqs [liti ''preview-'', twoDigits, liti ''-'', twoDigits],
                          liti ''exp-max'']]))"

definition oSeriesPattern :: pattern where
  "oSeriesPattern =
     seqs [liti ''o'', oneChar (\<lambda>c. c = CHR ''1'' \<or> c = CHR ''3'' \<or> c = CHR ''4''),
           opt (liti ''-mini'')]"

definition genericModelPattern :: pattern where
  "genericModelPattern =
     seqs [wordBoundary, opt (sq (liti ''discounted'') (plusGreedy isSpace)),
           grp (alts [claudePattern, gptPattern, geminiPattern, oSeriesPattern]),
           wordBoundary]"

text \<open>\<^verbatim>\<open>/extra fast premium requests? \(([^)]+)\)/i\<close>\<close>

definition extraFastPattern :: pattern where
  "extraFastPattern =
     seqs [liti ''extra fast premium request'', opt (liti ''s''), lit '' ('',
           grp (plusGreedy (\<lambda>c. c \<noteq> CHR '')'')), lit '')'']"

text \<open>\<^verbatim>\<open>/^(\d+)/\<close>\<close>

definition leadingCountPattern :: pattern where
  "leadingCountPattern = grp (plusGreedy isDigit)"

text \<open>The model name of a line in the original format (the second branch of the parser).\<close>

definition originalModelName :: "catalogue \<Rightarrow> string \<Rightarrow> string" where
  "originalModelName tr desc =
     (if str_includes desc ''tool calls'' then toolCalls tr
      else (case search genericModelPattern desc of
              Some caps \<Rightarrow> capture 1 caps
            | None \<Rightarrow>
                if str_includes desc ''extra fast premium request''
                then (case search extraFastPattern desc of
                        Some caps \<Rightarrow> if capture 1 caps = [] then fastPremium tr else capture 1 caps
                      | None \<Rightarrow> fastPremium tr)
                else unknownModel tr))"

text \<open>
  The parsing of a description: the request count, the model name and whether the
  token-based pattern matched; \<open>None\<close> when the line has no leading count at all.
\<close>

definition parseDescription :: "catalogue \<Rightarrow> string \<Rightarrow> (nat \<times> string \<times> bool) option" where
  "parseDescription tr desc =
     (case matchStart tokenBasedPattern desc of
        Some caps \<Rightarrow> Some (parseInt (capture 1 caps), capture 2 caps, True)
      | None \<Rightarrow>
          (case matchStart originalPattern desc of
             Some caps \<Rightarrow> Some (parseInt (capture 1 caps), originalModelName tr desc, False)
           | None \<Rightarrow>
               (case matchStart leadingCountPattern desc of
                  Some caps \<Rightarrow> Some (parseInt (capture 1 caps), unknownModel tr, False)
                | None \<Rightarrow> None)))"

text \<open>The body of the main loop: one raw line against the items and the payment so far.\<close>

definition processItem ::
  "catalogue \<Rightarrow> RawItem \<Rightarrow> UsageItem list \<times> rat \<Rightarrow> UsageItem list \<times> rat" where
  "processItem tr item st =
     (case st of (usageItems, midMonth) \<Rightarrow>
        (case cents item of
           None \<Rightarrow> st
         | Some c \<Rightarrow>
             if str_includes (rawDescription item) ''Mid-month usage paid''
             then (let paid = midMonth + abs (of_int c) / 100
                   in (usageItems @ [\<lparr>calculation = MidMonthCalc paid, totalDollars = - paid,
                                       description = rawDescription item,
                                       modelNameForTooltip = None, isDiscounted = None\<rparr>], paid))
             else (case parseDescription tr (rawDescription item) of
                     None \<Rightarrow> st
                   | Some (requestCount, parsedModelName, isTotallingItem) \<Rightarrow>
                       if requestCount = 0 then st
                       else (usageItems @
                               [\<lparr>calculation =
                                    RequestCalc requestCount
                                      (map_option (\<lambda>q. q / 100) (jsDivide (of_int c) (of_nat requestCount)))
                                      isTotallingItem,
                                  totalDollars = of_int c / 100,
                                  description = rawDescription item,
                                  modelNameForTooltip = Some parsedModelName,
                                  isDiscounted =
                                    Some (str_includes (toLowerCase (rawDescription item)) ''discounted'')\<rparr>],
                             midMonth))))"

text \<open>
  The two preliminary loops find the largest request count and the largest cost per request,
  used to pad the displayed calculation. Their count is the leading integer of the line.
\<close>

definition firstPassCount :: "string \<Rightarrow> nat" where
  "firstPassCount desc =
     (case matchStart (sq (grp (plusGreedy isDigit)) (lit '' token-based usage calls to'')) desc of
        Some caps \<Rightarrow> parseInt (capture 1 caps)
      | None \<Rightarrow>
          (case matchStart leadingCountPattern desc of
             Some caps \<Rightarrow> parseInt (capture 1 caps)
           | None \<Rightarrow> 0))"

text \<open>One step of the padding loops; \<open>None\<close> once a division had a zero divisor.\<close>

definition paddingStep :: "RawItem \<Rightarrow> (nat \<times> rat) option \<Rightarrow> (nat \<times> rat) option" where
  "paddingStep item acc =
     (case acc of
        None \<Rightarrow> None
      | Some (maxRequestCount, maxCostPerRequest) \<Rightarrow>
          (case cents item of
             None \<Rightarrow> acc
           | Some c \<Rightarrow>
               if str_includes (rawDescription item) ''Mid-month usage paid'' then acc
               else if 0 < firstPassCount (rawDescription item)
               then (case jsDivide (of_int c) (of_nat (firstPassCount (rawDescription item))) of
                       None \<Rightarrow> None
                     | Some costPerRequestCents \<Rightarrow>
                         Some (max maxRequestCount (firstPassCount (rawDescription item)),
                               max maxCostPerRequest (costPerRequestCents / 100)))
               else acc))"

definition paddingMaxima :: "RawItem list \<Rightarrow> (nat \<times> rat) option" where
  "paddingMaxima rawItems = fold paddingStep rawItems (Some (0, 0))"

datatype error = RequestFailed string | UserSpendNotFound

definition fetchMonthData :: "catalogue \<Rightarrow> error + InvoiceResponse \<Rightarrow> error + MonthData" where
  "fetchMonthData tr response =
     (case response of
        Inl e \<Rightarrow> Inl e
      | Inr r \<Rightarrow>
          (case fold (processItem tr) (case responseItems r of None \<Rightarrow> [] | Some xs \<Rightarrow> xs) ([], 0) of
             (usageItems, midMonth) \<Rightarrow>
               Inr \<lparr>items = usageItems, hasUnpaidMidMonthInvoice = responseHasUnpaid r,
                    midMonthPayment = midMonth\<rparr>))"

section \<open>Team membership and team spend (services/team)\<close>

text \<open>
  Modelled from the spec: the payload types (\<^verbatim>\<open>CursorUsageResponse\<close>, \<^verbatim>\<open>TeamInfo\<close>,
  \<^verbatim>\<open>TeamMemberInfo\<close>, \<^verbatim>\<open>TeamSpendResponse\<close>, \<^verbatim>\<open>UserCache\<close>) are declared in
  \<^verbatim>\<open>interfaces/types\<close>, which is not among the sources. The usage payload carries the entry of
  the primary premium model (\<^verbatim>\<open>gpt-4\<close>) and the start of the subscription month, here the
  date that its text denotes. The cache record is read back from a file, so its subject and
  its start of month may be missing (or empty, which the program treats alike).
\<close>

record UsageInfo =
  numRequests :: int
  maxRequestUsage :: "int option"
  numTokens :: int

record CursorUsageResponse =
  gpt4 :: UsageInfo
  usageStartOfMonth :: jsdate

record UserCache =
  cacheUserId :: int
  cacheJwtSub :: "string option"
  cacheIsTeamMember :: bool
  cacheTeamId :: "int option"
  lastChecked :: int
  cacheStartOfMonth :: "jsdate option"

record TeamInfo =
  teams :: "int list option"

record TeamMemberInfo =
  memberUserId :: int

record TeamMemberSpend =
  spendUserId :: int
  spendName :: string
  spendEmail :: string
  spendRole :: string
  spendCents :: "int option"
  fastPremiumRequests :: "int option"
  hardLimitOverrideDollars :: int

record TeamSpendResponse =
  teamMemberSpend :: "TeamMemberSpend list"
  totalMembers :: int

text \<open>What \<open>checkTeamMembership\<close> returns.\<close>

record TeamMembership =
  isTeamMember :: bool
  teamId :: "int option"
  userId :: "int option"
  startOfMonth :: jsdate

datatype endpoint = UsageEndpoint | TeamsEndpoint | TeamEndpoint

text \<open>
  The collaborators of one computation: the subject read from the session token, the answer
  of each request (one field per place of the program that sends it), whether the cache file
  can be written, the clock and the current date.
\<close>

record world =
  sessionSub :: "string option"
  membershipUsage :: "error + CursorUsageResponse"
  teamsAnswer :: "error + TeamInfo"
  teamAnswer :: "int \<Rightarrow> error + TeamMemberInfo"
  teamSpendAnswer :: "int \<Rightarrow> error + TeamSpendResponse"
  teamUsageAnswer :: "error + CursorUsageResponse"
  individualUsageAnswer :: "error + CursorUsageResponse"
  invoiceAnswer :: "int \<Rightarrow> int \<Rightarrow> error + InvoiceResponse"
  cacheWritable :: bool
  clock :: int
  currentDate :: jsdate

text \<open>A number used as a condition: absent and zero count as false.\<close>

definition truthy :: "int option \<Rightarrow> bool" where
  "truthy v = (case v of None \<Rightarrow> False | Some n \<Rightarrow> n \<noteq> 0)"

text \<open>\<open>saveUserCache\<close>: a failed write is logged and otherwise ignored.\<close>

definition saveUserCache :: "world \<Rightarrow> UserCache option \<Rightarrow> UserCache \<Rightarrow> UserCache option" where
  "saveUserCache w cache cacheData = (if cacheWritable w then Some cacheData else cache)"

text \<open>Whether the answer lists a team, and the id of the first team if so.\<close>

definition firstTeam :: "TeamInfo \<Rightarrow> bool \<times> int option" where
  "firstTeam info = (case teams info of Some (t # ts) \<Rightarrow> (True, Some t) | _ \<Rightarrow> (False, None))"

text \<open>The team-detail request, sent for a member with a team id: the team user id and the
  request sent.\<close>

definition teamUserLookup ::
  "world \<Rightarrow> bool \<Rightarrow> int option \<Rightarrow> error + (int option \<times> endpoint list)" where
  "teamUserLookup w member tid =
     (if member \<and> truthy tid
      then (case teamAnswer w (case tid of Some t \<Rightarrow> t | None \<Rightarrow> 0) of
              Inl e \<Rightarrow> Inl e
            | Inr detail \<Rightarrow> Inr (Some (memberUserId detail), [TeamEndpoint]))
      else Inr (None, []))"

text \<open>
  The part of \<open>checkTeamMembership\<close> after the cache check: the requests sent, in order, and
  the record saved. The result carries the new cache and the requests that were sent.
\<close>

definition freshLookup ::
  "world \<Rightarrow> UserCache option \<Rightarrow> (error + TeamMembership) \<times> UserCache option \<times> endpoint list" where
  "freshLookup w cache =
     (case membershipUsage w of
        Inl e \<Rightarrow> (Inl e, cache, [UsageEndpoint])
      | Inr usage \<Rightarrow>
          (case teamsAnswer w of
             Inl e \<Rightarrow> (Inl e, cache, [UsageEndpoint, TeamsEndpoint])
           | Inr info \<Rightarrow>
               (case teamUserLookup w (fst (firstTeam info)) (snd (firstTeam info)) of
                  Inl e \<Rightarrow> (Inl e, cache, [UsageEndpoint, TeamsEndpoint, TeamEndpoint])
                | Inr (teamUserId, sent) \<Rightarrow>
                    (Inr \<lparr>isTeamMember = fst (firstTeam info), teamId = snd (firstTeam info),
                          userId = teamUserId, startOfMonth = usageStartOfMonth usage\<rparr>,
                     saveUserCache w cache
                       \<lparr>cacheUserId = (case teamUserId of Some u \<Rightarrow> u | None \<Rightarrow> 0),
                        cacheJwtSub = sessionSub w, cacheIsTeamMember = fst (firstTeam info),
                        cacheTeamId = snd (firstTeam info), lastChecked = clock w,
                        cacheStartOfMonth = Some (usageStartOfMonth usage)\<rparr>,
                     [UsageEndpoint, TeamsEndpoint] @ sent))))"

definition checkTeamMembership ::
  "world \<Rightarrow> UserCache option \<Rightarrow> (error + TeamMembership) \<times> UserCache option \<times> endpoint list" where
  "checkTeamMembership w cache =
     (case cache of
        None \<Rightarrow> freshLookup w cache
      | Some c \<Rightarrow>
          if cacheJwtSub c = sessionSub w
          then (case cacheStartOfMonth c of
                  None \<Rightarrow> freshLookup w cache
                | Some start \<Rightarrow>
                    (Inr \<lparr>isTeamMember = cacheIsTeamMember c, teamId = cacheTeamId c,
                          userId = Some (cacheUserId c), startOfMonth = start\<rparr>, cache, []))
          else freshLookup w cache)"


definition getTeamSpend :: "world \<Rightarrow> int \<Rightarrow> error + TeamSpendResponse" where
  "getTeamSpend w tid = teamSpendAnswer w tid"

text \<open>
  \<open>extractUserSpend\<close> returns a new object, given here by its properties in the order of the
  source. Reading a property that an object does not have gives \<open>Undefined\<close>.
\<close>

datatype jsvalue = Undefined | Num int | Str string

type_synonym jsobject = "(string \<times> jsvalue) list"

definition getProp :: "jsobject \<Rightarrow> string \<Rightarrow> jsvalue" where
  "getProp obj k = (case map_of obj k of None \<Rightarrow> Undefined | Some v \<Rightarrow> v)"

text \<open>\<^verbatim>\<open>v || d\<close> for a property that holds a number or is missing.\<close>

definition numOr :: "jsvalue \<Rightarrow> int \<Rightarrow> int" where
  "numOr v d = (case v of Num n \<Rightarrow> if n = 0 then d else n | _ \<Rightarrow> d)"

definition extractUserSpend :: "TeamSpendResponse \<Rightarrow> int \<Rightarrow> error + jsobject" where
  "extractUserSpend teamSpend uid =
     (case find (\<lambda>member. spendUserId member = uid) (teamMemberSpend teamSpend) of
        None \<Rightarrow> Inl UserSpendNotFound
      | Some userSpend \<Rightarrow>
          Inr [(''userId'', Num (spendUserId userSpend)),
               (''name'', Str (spendName userSpend)),
               (''email'', Str (spendEmail userSpend)),
               (''role'', Str (spendRole userSpend)),
               (''hardLimitOverrideDollars'', Num (hardLimitOverrideDollars userSpend)),
               (''fastPremiumRequests'',
                  Num (case fastPremiumRequests userSpend of None \<Rightarrow> 0 | Some n \<Rightarrow> n))])"

section \<open>The snapshot (fetchCursorStats)\<close>

record MonthStats =
  month :: int
  year :: int
  usageBasedPricing :: MonthData

record PremiumRequests =
  current :: int
  limit :: "int option"
  premiumStartOfMonth :: jsdate

record CursorStats =
  currentMonth :: MonthStats
  lastMonth :: MonthStats
  premiumRequests :: PremiumRequests
  isTeamSpendData :: bool
  statsTeamId :: "int option"
  teamSpendCents :: "int option"

text \<open>
  The block guarded by the inner \<^verbatim>\<open>try\<close>: the team spend of the user, then the individual
  usage for the request counters. \<open>None\<close> stands for the \<^verbatim>\<open>catch\<close>, which logs and falls
  through; otherwise the counters and the stored spend.
\<close>

definition teamSpendBranch :: "world \<Rightarrow> TeamMembership \<Rightarrow> int \<Rightarrow> int \<Rightarrow> (PremiumRequests \<times> int) option" where
  "teamSpendBranch w teamInfo tid uid =
     (case getTeamSpend w tid of
        Inl e \<Rightarrow> None
      | Inr teamSpend \<Rightarrow>
          (case extractUserSpend teamSpend uid of
             Inl e \<Rightarrow> None
           | Inr userSpend \<Rightarrow>
               (case teamUsageAnswer w of
                  Inl e \<Rightarrow> None
                | Inr individualUsage \<Rightarrow>
                    Some (\<lparr>current = numRequests (gpt4 individualUsage),
                           limit = Some (case maxRequestUsage (gpt4 individualUsage) of
                                           None \<Rightarrow> 500
                                         | Some n \<Rightarrow> if n = 0 then 500 else n),
                           premiumStartOfMonth = startOfMonth teamInfo\<rparr>,
                          numOr (getProp userSpend ''spendCents'') 0))))"

text \<open>The request counters, whether team spend is in use, and the team spend.\<close>

definition premiumSource ::
  "world \<Rightarrow> TeamMembership \<Rightarrow> error + (PremiumRequests \<times> bool \<times> int option)" where
  "premiumSource w teamInfo =
     (case (if isTeamMember teamInfo \<and> truthy (teamId teamInfo) \<and> truthy (userId teamInfo)
            then teamSpendBranch w teamInfo
                   (case teamId teamInfo of Some t \<Rightarrow> t | None \<Rightarrow> 0)
                   (case userId teamInfo of Some u \<Rightarrow> u | None \<Rightarrow> 0)
            else None) of
        Some (premium, spend) \<Rightarrow> Inr (premium, True, Some spend)
      | None \<Rightarrow>
          (case individualUsageAnswer w of
             Inl e \<Rightarrow> Inl e
           | Inr usageData \<Rightarrow>
               Inr (\<lparr>current = numRequests (gpt4 usageData),
                      limit = maxRequestUsage (gpt4 usageData),
                      premiumStartOfMonth = usageStartOfMonth usageData\<rparr>, False, None)))"

definition emptyMonthData :: MonthData where
  "emptyMonthData = \<lparr>items = [], hasUnpaidMidMonthInvoice = False, midMonthPayment = 0\<rparr>"

text \<open>A month whose invoice request fails counts as a month without data.\<close>

definition monthDataOrEmpty :: "catalogue \<Rightarrow> world \<Rightarrow> jsdate \<Rightarrow> MonthStats" where
  "monthDataOrEmpty tr w periodStart =
     \<lparr>month = getMonth periodStart + 1, year = getFullYear periodStart,
      usageBasedPricing =
        (case fetchMonthData tr (invoiceAnswer w (getMonth periodStart + 1) (getFullYear periodStart)) of
           Inl e \<Rightarrow> emptyMonthData
         | Inr d \<Rightarrow> d)\<rparr>"

definition fetchCursorStats :: "catalogue \<Rightarrow> world \<Rightarrow> UserCache option \<Rightarrow> error + CursorStats" where
  "fetchCursorStats tr w cache =
     (case fst (checkTeamMembership w cache) of
        Inl e \<Rightarrow> Inl e
      | Inr teamInfo \<Rightarrow>
          (case premiumSource w teamInfo of
             Inl e \<Rightarrow> Inl e
           | Inr (premium, isUsingTeamSpend, spend) \<Rightarrow>
               Inr \<lparr>currentMonth =
                      monthDataOrEmpty tr w
                        (currentPeriodStart (premiumStartOfMonth premium) (currentDate w)),
                    lastMonth =
                      monthDataOrEmpty tr w
                        (previousPeriodStart (premiumStartOfMonth premium) (currentDate w)),
                    premiumRequests = premium,
                    isTeamSpendData = isUsingTeamSpend,
                    statsTeamId = teamId teamInfo,
                    teamSpendCents = spend\<rparr>))"

section \<open>Costs and unknown models (updateStats)\<close>

definition useTeamSpendData :: "CursorStats \<Rightarrow> bool" where
  "useTeamSpendData stats = (isTeamSpendData stats \<and> teamSpendCents stats \<noteq> None)"

definition activeMonthData :: "CursorStats \<Rightarrow> MonthStats" where
  "activeMonthData stats =
     (if items (usageBasedPricing (currentMonth stats)) \<noteq> [] \<or> useTeamSpendData stats
      then currentMonth stats else lastMonth stats)"

text \<open>The sum of the positive costs, as the program folds it.\<close>

definition positiveTotal :: "UsageItem list \<Rightarrow> rat" where
  "positiveTotal xs =
     foldl (\<lambda>sum item. if 0 < totalDollars item then sum + totalDollars item else sum) 0 xs"

definition actualTotalCost :: "CursorStats \<Rightarrow> rat" where
  "actualTotalCost stats =
     (if useTeamSpendData stats
      then (case teamSpendCents stats of Some c \<Rightarrow> of_int c / 100 | None \<Rightarrow> 0)
      else if items (usageBasedPricing (activeMonthData stats)) \<noteq> []
      then positiveTotal (items (usageBasedPricing (activeMonthData stats)))
      else 0)"

text \<open>Whether the usage-based section is shown (otherwise: no usage data available).\<close>

definition showsUsage :: "CursorStats \<Rightarrow> bool" where
  "showsUsage stats =
     (0 < actualTotalCost stats \<or> useTeamSpendData stats
      \<or> items (usageBasedPricing (activeMonthData stats)) \<noteq> [])"

text \<open>The unpaid amount, computed only inside the usage-based section.\<close>

definition unpaidAmount :: "CursorStats \<Rightarrow> rat option" where
  "unpaidAmount stats =
     (if showsUsage stats
      then Some (if useTeamSpendData stats then 0
                 else max 0 (actualTotalCost stats
                             - midMonthPayment (usageBasedPricing (activeMonthData stats))))
      else None)"

text \<open>
  The two module-level variables: the one-shot flag and the set of detected terms (a set of
  the host keeps insertion order; the list holds each term once).
\<close>

record detector =
  unknownModelNotificationShown :: bool
  detectedUnknownModels :: "string list"

text \<open>\<^verbatim>\<open>/^(\d+) token-based usage calls to ([\w.-]+),/i\<close>\<close>

definition tokenBasedDescPattern :: pattern where
  "tokenBasedDescPattern =
     seqs [grp (plusGreedy isDigit), liti '' token-based usage calls to '',
           grp (plusGreedy (\<lambda>c. isWord c \<or> c = CHR ''.'' \<or> c = CHR ''-'')), lit '','']"

text \<open>\<^verbatim>\<open>/^(\d+)\s+([\w.-]+)/i\<close>\<close>

definition simpleDescPattern :: pattern where
  "simpleDescPattern =
     seqs [grp (plusGreedy isDigit), plusGreedy isSpace,
           grp (plusGreedy (\<lambda>c. isWord c \<or> c = CHR ''.'' \<or> c = CHR ''-''))]"

text \<open>\<^verbatim>\<open>/requests?|calls?|beyond|\*|per|,$/gi\<close>, every match of which is removed.\<close>

definition noisePattern :: pattern where
  "noisePattern =
     alts [sq (liti ''request'') (opt (liti ''s'')), sq (liti ''call'') (opt (liti ''s'')),
           liti ''beyond'', lit ''*'', liti ''per'', sq (lit '','') eol]"

text \<open>The number of characters of the match of the noise pattern at the start of a text.\<close>

definition noiseLength :: "string \<Rightarrow> nat option" where
  "noiseLength s =
     (case noisePattern ([], None, s) of
        [] \<Rightarrow> None
      | st # sts \<Rightarrow> Some (length s - length (snd (snd st))))"

text \<open>The replacement from left to right; \<open>skip\<close> counts the characters of a match still
  to be dropped.\<close>

fun removeNoise :: "nat \<Rightarrow> string \<Rightarrow> string" where
  "removeNoise skip [] = []"
| "removeNoise (Suc skip) (c # cs) = removeNoise skip cs"
| "removeNoise 0 (c # cs) =
     (case noiseLength (c # cs) of
        None \<Rightarrow> c # removeNoise 0 cs
      | Some n \<Rightarrow> removeNoise (n - 1) cs)"

definition endsWith :: "string \<Rightarrow> string \<Rightarrow> bool" where
  "endsWith s p = startsWith (rev s) (rev p)"

text \<open>The term that the tooltip loop extracts from an item flagged as unknown.\<close>

definition extractedTerm :: "UsageItem \<Rightarrow> string" where
  "extractedTerm item =
     (case matchStart tokenBasedDescPattern (description item) of
        Some caps \<Rightarrow> trim (capture 2 caps)
      | None \<Rightarrow>
          (case search extraFastPattern (description item) of
             Some caps \<Rightarrow> trim (capture 1 caps)
           | None \<Rightarrow>
               (case matchStart originalPattern (description item) of
                  Some caps \<Rightarrow>
                    (if isDiscounted item = Some True
                        \<and> startsWith (toLowerCase (trim (capture 2 caps))) ''discounted ''
                     then trim (drop 11 (trim (capture 2 caps)))
                     else trim (capture 2 caps))
                | None \<Rightarrow>
                    (case matchStart simpleDescPattern (description item) of
                       Some caps \<Rightarrow> trim (capture 2 caps)
                     | None \<Rightarrow> []))))"

definition cleanedTerm :: "UsageItem \<Rightarrow> string" where
  "cleanedTerm item =
     (let t = trim (removeNoise 0 (extractedTerm item))
      in if endsWith (toLowerCase t) '' usage'' then trim (take (length t - 6) t) else t)"

definition veryGenericKeywords :: "string list" where
  "veryGenericKeywords =
     [''usage'', ''calls'', ''request'', ''requests'', ''cents'', ''beyond'', ''month'', ''day'',
      ''january'', ''february'', ''march'', ''april'', ''may'', ''june'', ''july'', ''august'',
      ''september'', ''october'', ''november'', ''december'',
      ''premium'', ''extra'', ''tool'', ''fast'', ''thinking'']"

text \<open>Whether a term is, or contains, or is contained in a recorded one, whatever the case.\<close>

definition alreadyPresent :: "string list \<Rightarrow> string \<Rightarrow> bool" where
  "alreadyPresent models term =
     list_ex (\<lambda>d. str_includes (toLowerCase d) (toLowerCase term)
                 \<or> str_includes (toLowerCase term) (toLowerCase d)) models"

text \<open>The recording of one extracted term.\<close>

definition recordTerm :: "string \<Rightarrow> string list \<Rightarrow> string list" where
  "recordTerm term models =
     (if term \<noteq> [] \<and> 1 < length term \<and> toLowerCase term \<noteq> ''token-based''
         \<and> toLowerCase term \<noteq> ''discounted''
      then (if List.member veryGenericKeywords (toLowerCase term) then models
            else if alreadyPresent models term then models
            else models @ [term])
      else models)"

text \<open>The part of the body of the tooltip loop that feeds the detector.\<close>

definition detectItem :: "UsageItem \<Rightarrow> string list \<Rightarrow> string list" where
  "detectItem item models =
     (if str_includes (description item) ''Mid-month usage paid'' then models
      else if description item = [] then models
      else if modelNameForTooltip item = Some ''unknown-model''
      then recordTerm (cleanedTerm item) models
      else models)"

text \<open>
  The effect of one run of \<open>updateStats\<close> on the detector, and the terms it notifies (if it
  does). A run whose snapshot request fails leaves the detector as it is. The collaborators
  that format the tooltip are taken to return.
\<close>

definition updateStats :: "error + CursorStats \<Rightarrow> detector \<Rightarrow> detector \<times> string list option" where
  "updateStats fetched det =
     (case fetched of
        Inl e \<Rightarrow> (det, None)
      | Inr stats \<Rightarrow>
          (let models =
                 (if showsUsage stats \<and> \<not> useTeamSpendData stats
                     \<and> items (usageBasedPricing (activeMonthData stats)) \<noteq> []
                  then fold detectItem (items (usageBasedPricing (activeMonthData stats)))
                         (detectedUnknownModels det)
                  else detectedUnknownModels det)
           in if \<not> unknownModelNotificationShown det \<and> models \<noteq> []
              then (\<lparr>unknownModelNotificationShown = True, detectedUnknownModels = models\<rparr>,
                    Some models)
              else (\<lparr>unknownModelNotificationShown = unknownModelNotificationShown det,
                     detectedUnknownModels = models\<rparr>, None)))"

text \<open>Successive refresh cycles: the notifications shown, in order.\<close>

fun refreshCycles :: "(error + CursorStats) list \<Rightarrow> detector \<Rightarrow> string list list" where
  "refreshCycles [] det = []"
| "refreshCycles (fetched # rest) det =
     (case updateStats fetched det of
        (det', None) \<Rightarrow> refreshCycles rest det'
      | (det', Some shown) \<Rightarrow> shown # refreshCycles rest det')"

definition initialDetector :: detector where
  "initialDetector = \<lparr>unknownModelNotificationShown = False, detectedUnknownModels = []\<rparr>"

section \<open>Notions of the specification\<close>

text \<open>
  A parsed usage item of the specification is an item with a request count and a model name;
  the line that the program stores for a mid-month payment has neither.
\<close>

definition isParsedUsageItem :: "UsageItem \<Rightarrow> bool" where
  "isParsedUsageItem x =
     (case calculation x of
        MidMonthCalc p \<Rightarrow> False
      | RequestCalc n q t \<Rightarrow> modelNameForTooltip x \<noteq> None)"

text \<open>A line that reaches the parser and whose parsed request count is 0.\<close>

definition zeroCountLine :: "catalogue \<Rightarrow> RawItem \<Rightarrow> bool" where
  "zeroCountLine tr item =
     (if str_includes (rawDescription item) ''Mid-month usage paid'' then False
      else (case parseDescription tr (rawDescription item) of
              None \<Rightarrow> False
            | Some (n, m, t) \<Rightarrow> n = 0))"

text \<open>The cost per request of an item came from a division by a positive count.\<close>

definition divisionDefined :: "UsageItem \<Rightarrow> bool" where
  "divisionDefined x =
     (case calculation x of
        MidMonthCalc p \<Rightarrow> True
      | RequestCalc n q t \<Rightarrow> 0 < n \<and> q \<noteq> None)"

text \<open>The sum of the positive costs of a list of items, as the specification words it.\<close>

definition sumOfPositiveCosts :: "UsageItem list \<Rightarrow> rat" where
  "sumOfPositiveCosts xs = sum_list (filter (\<lambda>c. 0 < c) (map totalDollars xs))"

text \<open>A message catalogue for the examples.\<close>

definition sampleCatalogue :: catalogue where
  "sampleCatalogue =
     \<lparr>toolCalls = ''tool calls'', fastPremium = ''fast premium'', unknownModel = ''unknown-model''\<rparr>"

text \<open>Sample collaborators for the examples: a user of team 9 with team user id 7.\<close>

definition sampleUsage :: CursorUsageResponse where
  "sampleUsage =
     \<lparr>gpt4 = \<lparr>numRequests = 42, maxRequestUsage = None, numTokens = 0\<rparr>,
      usageStartOfMonth = \<lparr>getFullYear = 2024, getMonth = 0, getDate = 15, timeInDay = 0\<rparr>\<rparr>"

definition sampleTeamSpend :: TeamSpendResponse where
  "sampleTeamSpend =
     \<lparr>teamMemberSpend =
        [\<lparr>spendUserId = 7, spendName = ''Ada'', spendEmail = ''ada@example.org'',
          spendRole = ''member'', spendCents = Some 1234, fastPremiumRequests = Some 3,
          hardLimitOverrideDollars = 0\<rparr>],
      totalMembers = 1\<rparr>"

definition sampleInvoice :: InvoiceResponse where
  "sampleInvoice =
     \<lparr>responseItems =
        Some [\<lparr>rawDescription =
                  ''142 token-based usage calls to claude-4-sonnet, totalling: $9.94'',
                cents = Some 994\<rparr>,
              \<lparr>rawDescription = ''Mid-month usage paid'', cents = Some (- 500)\<rparr>],
      responseHasUnpaid = False\<rparr>"

definition teamWorld :: world where
  "teamWorld =
     \<lparr>sessionSub = Some ''user_1'',
      membershipUsage = Inr sampleUsage,
      teamsAnswer = Inr \<lparr>teams = Some [9]\<rparr>,
      teamAnswer = (\<lambda>t. Inr \<lparr>memberUserId = 7\<rparr>),
      teamSpendAnswer = (\<lambda>t. Inr sampleTeamSpend),
      teamUsageAnswer = Inr sampleUsage,
      individualUsageAnswer = Inr sampleUsage,
      invoiceAnswer = (\<lambda>m y. Inr sampleInvoice),
      cacheWritable = True,
      clock = 0,
      currentDate = \<lparr>getFullYear = 2024, getMonth = 3, getDate = 3, timeInDay = 0\<rparr>\<rparr>"

definition soloWorld :: world where
  "soloWorld = teamWorld\<lparr>teamsAnswer := Inr \<lparr>teams = Some []\<rparr>\<rparr>"

definition teamsDownWorld :: world where
  "teamsDownWorld = teamWorld\<lparr>teamsAnswer := Inl (RequestFailed ''teams'')\<rparr>"

definition spendDownWorld :: world where
  "spendDownWorld = teamWorld\<lparr>teamSpendAnswer := (\<lambda>t. Inl (RequestFailed ''spend''))\<rparr>"


text \<open>A sample snapshot of an individual user.\<close>

definition sampleMonth :: MonthStats where
  "sampleMonth =
     \<lparr>month = 3, year = 2024,
      usageBasedPricing =
        \<lparr>items =
           [\<lparr>calculation = RequestCalc 142 (Some (7 / 100)) True, totalDollars = 994 / 100,
             description = ''142 token-based usage calls to claude-4-sonnet, totalling: $9.94'',
             modelNameForTooltip = Some ''claude-4-sonnet'', isDiscounted = Some False\<rparr>,
            \<lparr>calculation = MidMonthCalc 5, totalDollars = - 5,
             description = ''Mid-month usage paid'',
             modelNameForTooltip = None, isDiscounted = None\<rparr>],
         hasUnpaidMidMonthInvoice = False, midMonthPayment = 5\<rparr>\<rparr>"

definition soloStats :: CursorStats where
  "soloStats =
     \<lparr>currentMonth = sampleMonth, lastMonth = sampleMonth,
      premiumRequests =
        \<lparr>current = 42, limit = None,
         premiumStartOfMonth = \<lparr>getFullYear = 2024, getMonth = 0, getDate = 15, timeInDay = 0\<rparr>\<rparr>,
      isTeamSpendData = False, statsTeamId = None, teamSpendCents = None\<rparr>"


text \<open>Two items that the parser flagged as unknown.\<close>

definition glorboItem :: UsageItem where
  "glorboItem =
     \<lparr>calculation = RequestCalc 3 (Some (1 / 10)) False, totalDollars = 30 / 100,
      description = ''3 glorbo-7 requests'',
      modelNameForTooltip = Some ''unknown-model'', isDiscounted = Some False\<rparr>"

definition glorboMiniItem :: UsageItem where
  "glorboMiniItem =
     \<lparr>calculation = RequestCalc 4 (Some (1 / 10)) False, totalDollars = 40 / 100,
      description = ''4 glorbo-7-mini requests'',
      modelNameForTooltip = Some ''unknown-model'', isDiscounted = Some False\<rparr>"

text \<open>A snapshot whose current month holds the two flagged items.\<close>

definition glorboStats :: CursorStats where
  "glorboStats =
     soloStats\<lparr>currentMonth :=
       \<lparr>month = 4, year = 2024,
        usageBasedPricing =
          \<lparr>items = [glorboItem, glorboMiniItem], hasUnpaidMidMonthInvoice = False,
           midMonthPayment = 0\<rparr>\<rparr>\<rparr>"

section \<open>Properties of the billing periods\<close>

lemma daysInMonth_ge_28: "28 \<le> daysInMonth y m"
  by (simp add: daysInMonth_def)

lemma daysInMonth_december: "daysInMonth y 11 = 31"
  by (simp add: daysInMonth_def)

lemma rollDays_fits: "d \<le> daysInMonth y m \<Longrightarrow> rollDays y m d = (y, m, d)"
  by (subst rollDays.simps) simp

lemma rollDays_rolls:
  assumes "daysInMonth y m < d" "d \<le> 31" "m \<noteq> 11"
  shows "rollDays y m d = (y, m + 1, d - daysInMonth y m)"
proof -
  have "d - daysInMonth y m \<le> daysInMonth y (m + 1)"
    using assms(2) daysInMonth_ge_28 [of y m] daysInMonth_ge_28 [of y "m + 1"] by linarith
  then have "rollDays y (m + 1) (d - daysInMonth y m) = (y, m + 1, d - daysInMonth y m)"
    by (rule rollDays_fits)
  with assms(1,3) show ?thesis
    by (subst rollDays.simps) simp
qed

lemma div12_carry: "0 \<le> (m::int) \<Longrightarrow> m \<le> 11 \<Longrightarrow> (a * 12 + m) div 12 = a"
  by simp

lemma mod12_carry: "0 \<le> (m::int) \<Longrightarrow> m \<le> 11 \<Longrightarrow> (a * 12 + m) mod 12 = m"
  by simp

lemma tentativePeriodStart_unfold:
  assumes "0 \<le> getMonth n" "getMonth n \<le> 11"
  shows "tentativePeriodStart s n =
         setFullYear (makeDate (getFullYear n) (getMonth n) (getDate s) (timeInDay s)) (getFullYear n)"
proof -
  define j where "j = getMonth s + monthsSinceStart s n"
  have j: "j = (getFullYear n - getFullYear s) * 12 + getMonth n"
    by (simp add: j_def monthsSinceStart_def)
  have dv: "j div 12 = getFullYear n - getFullYear s"
    unfolding j using assms by (rule div12_carry)
  have md: "j mod 12 = getMonth n"
    unfolding j using assms by (rule mod12_carry)
  have "setMonth s j = makeDate (getFullYear n) (getMonth n) (getDate s) (timeInDay s)"
    using assms by (simp add: setMonth_def makeDate_def dv md)
  moreover have "tentativePeriodStart s n = setFullYear (setMonth s j) (getFullYear s + j div 12)"
    by (simp add: tentativePeriodStart_def Let_def j_def)
  ultimately show ?thesis by (simp add: dv)
qed

lemma makeDate_fits:
  assumes "0 \<le> m" "m \<le> 11" "d \<le> daysInMonth y m"
  shows "makeDate y m d t = \<lparr>getFullYear = y, getMonth = m, getDate = d, timeInDay = t\<rparr>"
  using assms by (simp add: makeDate_def rollDays_fits)

lemma makeDate_rolls:
  assumes "0 \<le> m" "m \<le> 11" "daysInMonth y m < d" "d \<le> 31"
  shows "makeDate y m d t
         = \<lparr>getFullYear = y, getMonth = m + 1, getDate = d - daysInMonth y m, timeInDay = t\<rparr>"
proof -
  have "m \<noteq> 11" using assms(3,4) daysInMonth_december [of y] by auto
  with assms show ?thesis by (simp add: makeDate_def rollDays_rolls)
qed

lemma tentative_fits:
  assumes "0 \<le> getMonth n" "getMonth n \<le> 11" "getDate s \<le> daysInMonth (getFullYear n) (getMonth n)"
  shows "tentativePeriodStart s n =
         \<lparr>getFullYear = getFullYear n, getMonth = getMonth n, getDate = getDate s,
          timeInDay = timeInDay s\<rparr>"
  using assms
  by (simp add: tentativePeriodStart_unfold makeDate_fits setFullYear_def)

lemma tentative_rolls:
  assumes "0 \<le> getMonth n" "getMonth n \<le> 11" "daysInMonth (getFullYear n) (getMonth n) < getDate s"
    "getDate s \<le> 31"
  shows "tentativePeriodStart s n =
         \<lparr>getFullYear = getFullYear n, getMonth = getMonth n + 1,
          getDate = getDate s - daysInMonth (getFullYear n) (getMonth n),
          timeInDay = timeInDay s\<rparr>"
proof -
  have ne: "getMonth n \<noteq> 11" using assms(3,4) daysInMonth_december [of "getFullYear n"] by auto
  have small: "getDate s - daysInMonth (getFullYear n) (getMonth n)
     \<le> daysInMonth (getFullYear n) (getMonth n + 1)"
    using assms(4) daysInMonth_ge_28 [of "getFullYear n" "getMonth n"]
      daysInMonth_ge_28 [of "getFullYear n" "getMonth n + 1"] by linarith
  have "makeDate (getFullYear n) (getMonth n + 1)
          (getDate s - daysInMonth (getFullYear n) (getMonth n)) (timeInDay s)
        = \<lparr>getFullYear = getFullYear n, getMonth = getMonth n + 1,
          getDate = getDate s - daysInMonth (getFullYear n) (getMonth n),
          timeInDay = timeInDay s\<rparr>"
    using assms(1,2) ne small by (intro makeDate_fits) auto
  with assms show ?thesis
    by (simp add: tentativePeriodStart_unfold makeDate_rolls setFullYear_def)
qed

lemma setMonth_small: "getDate c \<le> 28 \<Longrightarrow> getDate (setMonth c m) = getDate c"
  using daysInMonth_ge_28 [of "getFullYear c + m div 12" "m mod 12"]
  by (simp add: setMonth_def makeDate_def rollDays_fits)

text \<open>
  C1, as amended. The period starts are obtained with the month setter of the host, which
  rolls over and does not clamp. The start shifted to the month of the current date keeps the
  day of the month of the subscription start when that month has such a day; when the month is
  shorter, the shifted start lies in the following month, on the day left after the days of
  the shorter month. Whenever the day of the subscription start is at most 28 (a day that
  every month has), the starts of the current and of the previous period fall on that day.
\<close>

theorem period_start_rolls_over:
  assumes "0 \<le> getMonth n" and "getMonth n \<le> 11" and "getDate s \<le> 31"
  shows "(getDate s \<le> daysInMonth (getFullYear n) (getMonth n) \<longrightarrow>
            tentativePeriodStart s n
            = \<lparr>getFullYear = getFullYear n, getMonth = getMonth n, getDate = getDate s,
               timeInDay = timeInDay s\<rparr>)
         \<and> (daysInMonth (getFullYear n) (getMonth n) < getDate s \<longrightarrow>
            tentativePeriodStart s n
            = \<lparr>getFullYear = getFullYear n, getMonth = getMonth n + 1,
               getDate = getDate s - daysInMonth (getFullYear n) (getMonth n),
               timeInDay = timeInDay s\<rparr>)
         \<and> (getDate s \<le> 28 \<longrightarrow>
            getDate (currentPeriodStart s n) = getDate s
            \<and> getDate (previousPeriodStart s n) = getDate s)"
proof (intro conjI impI)
  assume "getDate s \<le> daysInMonth (getFullYear n) (getMonth n)"
  with assms(1,2) show "tentativePeriodStart s n
            = \<lparr>getFullYear = getFullYear n, getMonth = getMonth n, getDate = getDate s,
               timeInDay = timeInDay s\<rparr>"
    by (rule tentative_fits)
next
  assume "daysInMonth (getFullYear n) (getMonth n) < getDate s"
  with assms(1,2) show "tentativePeriodStart s n
            = \<lparr>getFullYear = getFullYear n, getMonth = getMonth n + 1,
               getDate = getDate s - daysInMonth (getFullYear n) (getMonth n),
               timeInDay = timeInDay s\<rparr>"
    using assms(3) by (rule tentative_rolls)
next
  assume small: "getDate s \<le> 28"
  then have "getDate s \<le> daysInMonth (getFullYear n) (getMonth n)"
    using daysInMonth_ge_28 [of "getFullYear n" "getMonth n"] by linarith
  with assms(1,2) have t: "getDate (tentativePeriodStart s n) = getDate s"
    by (simp add: tentative_fits)
  show c: "getDate (currentPeriodStart s n) = getDate s"
    using small t by (simp add: currentPeriodStart_def Let_def setMonth_small)
  show "getDate (previousPeriodStart s n) = getDate s"
    using small c by (simp add: previousPeriodStart_def Let_def setMonth_small)
qed

text \<open>A start on 15 January 2024 seen on 3 April 2024: the shifted start is 15 April and
  the periods start on a 15th. A start on 31 January 2024 seen that day: the shifted start is
  1 May.\<close>

theorem period_start_rolls_over_witness:
  "tentativePeriodStart
      \<lparr>getFullYear = 2024, getMonth = 0, getDate = 15, timeInDay = 0\<rparr>
      \<lparr>getFullYear = 2024, getMonth = 3, getDate = 3, timeInDay = 0\<rparr>
   = \<lparr>getFullYear = 2024, getMonth = 3, getDate = 15, timeInDay = 0\<rparr>
   \<and> getDate (currentPeriodStart
      \<lparr>getFullYear = 2024, getMonth = 0, getDate = 15, timeInDay = 0\<rparr>
      \<lparr>getFullYear = 2024, getMonth = 3, getDate = 3, timeInDay = 0\<rparr>) = 15
   \<and> getDate (previousPeriodStart
      \<lparr>getFullYear = 2024, getMonth = 0, getDate = 15, timeInDay = 0\<rparr>
      \<lparr>getFullYear = 2024, getMonth = 3, getDate = 3, timeInDay = 0\<rparr>) = 15
   \<and> tentativePeriodStart
      \<lparr>getFullYear = 2024, getMonth = 0, getDate = 31, timeInDay = 0\<rparr>
      \<lparr>getFullYear = 2024, getMonth = 3, getDate = 3, timeInDay = 0\<rparr>
   = \<lparr>getFullYear = 2024, getMonth = 4, getDate = 1, timeInDay = 0\<rparr>"
  using period_start_rolls_over
    [of "\<lparr>getFullYear = 2024, getMonth = 3, getDate = 3, timeInDay = 0\<rparr>"
        "\<lparr>getFullYear = 2024, getMonth = 0, getDate = 15, timeInDay = 0\<rparr>"]
    period_start_rolls_over
    [of "\<lparr>getFullYear = 2024, getMonth = 3, getDate = 3, timeInDay = 0\<rparr>"
        "\<lparr>getFullYear = 2024, getMonth = 0, getDate = 31, timeInDay = 0\<rparr>"]
  by (simp add: daysInMonth_def)

text \<open>
  C1 as stated fails. A start on 31 January 2024 seen on 15 April 2024 (April has 30 days):
  the shifted start rolls over to 1 May; being after the current date it is moved back one
  month, to 1 April. The period start is neither clamped to 30 April nor on day 31.
\<close>

theorem period_start_rolls_over_counterexample:
  "daysInMonth 2024 3 = 30
   \<and> tentativePeriodStart
        \<lparr>getFullYear = 2024, getMonth = 0, getDate = 31, timeInDay = 0\<rparr>
        \<lparr>getFullYear = 2024, getMonth = 3, getDate = 15, timeInDay = 0\<rparr>
      = \<lparr>getFullYear = 2024, getMonth = 4, getDate = 1, timeInDay = 0\<rparr>
   \<and> currentPeriodStart
        \<lparr>getFullYear = 2024, getMonth = 0, getDate = 31, timeInDay = 0\<rparr>
        \<lparr>getFullYear = 2024, getMonth = 3, getDate = 15, timeInDay = 0\<rparr>
      = \<lparr>getFullYear = 2024, getMonth = 3, getDate = 1, timeInDay = 0\<rparr>
   \<and> getDate (currentPeriodStart
        \<lparr>getFullYear = 2024, getMonth = 0, getDate = 31, timeInDay = 0\<rparr>
        \<lparr>getFullYear = 2024, getMonth = 3, getDate = 15, timeInDay = 0\<rparr>) \<noteq> 30"
  by code_simp

section \<open>Properties of the invoice parser\<close>

lemma marker_includes_itself: "str_includes ''Mid-month usage paid'' ''Mid-month usage paid''"
  by code_simp

text \<open>
  C5. A line whose description contains the mid-month marker and that has an amount adds the
  absolute value of the amount, in dollars, to the running mid-month payment, and adds no
  parsed usage item (the line it stores for display carries no request count and no model).
\<close>

theorem mid_month_line_accumulates:
  assumes "str_includes (rawDescription item) ''Mid-month usage paid''" and "cents item = Some c"
  shows "snd (processItem tr item (us, mid)) = mid + \<bar>of_int c\<bar> / 100
         \<and> filter isParsedUsageItem (fst (processItem tr item (us, mid)))
             = filter isParsedUsageItem us"
  using assms by (simp add: processItem_def Let_def isParsedUsageItem_def)

text \<open>The line \<open>Mid-month usage paid\<close> with -500 cents contributes exactly 5 dollars.\<close>

theorem mid_month_line_accumulates_witness:
  "snd (processItem sampleCatalogue
          \<lparr>rawDescription = ''Mid-month usage paid'', cents = Some (- 500)\<rparr> ([], 0)) = 5
   \<and> filter isParsedUsageItem
        (fst (processItem sampleCatalogue
                \<lparr>rawDescription = ''Mid-month usage paid'', cents = Some (- 500)\<rparr> ([], 0))) = []"
  using mid_month_line_accumulates
    [of "\<lparr>rawDescription = ''Mid-month usage paid'', cents = Some (- 500)\<rparr>" "- 500"
        sampleCatalogue "[]" 0]
  by (simp add: marker_includes_itself)

lemma parse_token_based_example:
  "parseDescription tr ''142 token-based usage calls to claude-4-sonnet, totalling: $9.94''
   = Some (142, ''claude-4-sonnet'', True)"
  by code_simp

lemma token_based_example_not_marker:
  "\<not> str_includes ''142 token-based usage calls to claude-4-sonnet, totalling: $9.94''
        ''Mid-month usage paid''"
  by code_simp

lemma token_based_example_not_discounted:
  "\<not> str_includes
        (toLowerCase ''142 token-based usage calls to claude-4-sonnet, totalling: $9.94'')
        ''discounted''"
  by code_simp

lemma processItem_token_based_example:
  "processItem tr
     \<lparr>rawDescription = ''142 token-based usage calls to claude-4-sonnet, totalling: $9.94'',
      cents = Some 994\<rparr> (us, mid)
   = (us @ [\<lparr>calculation = RequestCalc 142 (Some (7 / 100)) True,
              totalDollars = 994 / 100,
              description = ''142 token-based usage calls to claude-4-sonnet, totalling: $9.94'',
              modelNameForTooltip = Some ''claude-4-sonnet'',
              isDiscounted = Some False\<rparr>], mid)"
  by (simp add: processItem_def parse_token_based_example token_based_example_not_marker
      token_based_example_not_discounted jsDivide_def)

text \<open>
  C6. The line \<open>142 token-based usage calls to claude-4-sonnet, totalling: $9.94\<close> with 994
  cents gives exactly one item: request count 142, model \<open>claude-4-sonnet\<close>, cost 994/100
  dollars, not discounted; this for the loop body after any earlier lines and for an invoice
  that consists of the line.
\<close>

theorem token_based_line_parsed:
  "processItem tr
     \<lparr>rawDescription = ''142 token-based usage calls to claude-4-sonnet, totalling: $9.94'',
      cents = Some 994\<rparr> (us, mid)
   = (us @ [\<lparr>calculation = RequestCalc 142 (Some (7 / 100)) True,
              totalDollars = 994 / 100,
              description = ''142 token-based usage calls to claude-4-sonnet, totalling: $9.94'',
              modelNameForTooltip = Some ''claude-4-sonnet'',
              isDiscounted = Some False\<rparr>], mid)
   \<and> fetchMonthData tr
        (Inr \<lparr>responseItems =
                 Some [\<lparr>rawDescription =
                           ''142 token-based usage calls to claude-4-sonnet, totalling: $9.94'',
                         cents = Some 994\<rparr>],
               responseHasUnpaid = b\<rparr>)
      = Inr \<lparr>items =
                [\<lparr>calculation = RequestCalc 142 (Some (7 / 100)) True,
                  totalDollars = 994 / 100,
                  description =
                    ''142 token-based usage calls to claude-4-sonnet, totalling: $9.94'',
                  modelNameForTooltip = Some ''claude-4-sonnet'',
                  isDiscounted = Some False\<rparr>],
              hasUnpaidMidMonthInvoice = b, midMonthPayment = 0\<rparr>"
  by (simp add: fetchMonthData_def processItem_token_based_example)

lemma processItem_zeroCountLine: "zeroCountLine tr item \<Longrightarrow> processItem tr item st = st"
  by (cases st) (auto simp: processItem_def zeroCountLine_def split: option.splits if_splits)

lemma fold_skips_zeroCountLines:
  "fold (processItem tr) (filter (\<lambda>i. \<not> zeroCountLine tr i) rs) st
   = fold (processItem tr) rs st"
  by (induction rs arbitrary: st) (simp_all add: processItem_zeroCountLine)

lemma processItem_divisionDefined:
  assumes "list_all divisionDefined (fst st)"
  shows "list_all divisionDefined (fst (processItem tr item st))"
  using assms
  by (cases st)
    (auto simp: processItem_def divisionDefined_def jsDivide_def Let_def
      split: option.splits if_splits)

lemma fold_divisionDefined:
  "list_all divisionDefined (fst st) \<Longrightarrow>
   list_all divisionDefined (fst (fold (processItem tr) rs st))"
  by (induction rs arbitrary: st) (simp_all add: processItem_divisionDefined)

lemma paddingStep_Some: "acc \<noteq> None \<Longrightarrow> paddingStep item acc \<noteq> None"
  by (auto simp: paddingStep_def jsDivide_def split: option.splits if_splits)

lemma fold_paddingStep_Some: "acc \<noteq> None \<Longrightarrow> fold paddingStep rs acc \<noteq> None"
proof (induction rs arbitrary: acc)
  case Nil
  then show ?case by simp
next
  case (Cons a rs)
  have "paddingStep a acc \<noteq> None"
    using Cons.prems by (rule paddingStep_Some)
  then have "fold paddingStep rs (paddingStep a acc) \<noteq> None"
    by (rule Cons.IH)
  then show ?case by simp
qed

text \<open>
  C9. A line that reaches the parser with a parsed request count of 0 is skipped: the loop
  body leaves the items and the mid-month payment as they were, so an invoice gives the same
  month data with or without such lines. No division has a zero divisor: every item of a
  month's data carries a cost per request that came from a division by a positive count, and
  the padding loops never divide by zero either.
\<close>

theorem zero_count_lines_skipped:
  "(zeroCountLine tr item \<longrightarrow> processItem tr item st = st)
   \<and> fetchMonthData tr
        (Inr (r\<lparr>responseItems :=
                  map_option (filter (\<lambda>i. \<not> zeroCountLine tr i)) (responseItems r)\<rparr>))
      = fetchMonthData tr (Inr r)
   \<and> (\<forall>d. fetchMonthData tr (Inr r) = Inr d \<longrightarrow> list_all divisionDefined (items d))
   \<and> paddingMaxima rs \<noteq> None"
proof (intro conjI impI allI)
  assume "zeroCountLine tr item"
  then show "processItem tr item st = st"
    by (rule processItem_zeroCountLine)
next
  show "fetchMonthData tr
          (Inr (r\<lparr>responseItems :=
                    map_option (filter (\<lambda>i. \<not> zeroCountLine tr i)) (responseItems r)\<rparr>))
        = fetchMonthData tr (Inr r)"
    by (cases "responseItems r") (simp_all add: fetchMonthData_def fold_skips_zeroCountLines)
next
  fix d
  assume "fetchMonthData tr (Inr r) = Inr d"
  moreover have "list_all divisionDefined
      (fst (fold (processItem tr) (case responseItems r of None \<Rightarrow> [] | Some xs \<Rightarrow> xs) ([], 0)))"
    by (rule fold_divisionDefined) simp
  ultimately show "list_all divisionDefined (items d)"
    by (auto simp: fetchMonthData_def split: prod.splits)
next
  show "paddingMaxima rs \<noteq> None"
    by (simp add: paddingMaxima_def fold_paddingStep_Some)
qed

lemma zero_count_example:
  "zeroCountLine sampleCatalogue \<lparr>rawDescription = ''0 o3-mini requests'', cents = Some 40\<rparr>"
  by code_simp

text \<open>The line \<open>0 o3-mini requests\<close> with 40 cents is such a line and changes nothing.\<close>

theorem zero_count_lines_skipped_witness:
  "zeroCountLine sampleCatalogue \<lparr>rawDescription = ''0 o3-mini requests'', cents = Some 40\<rparr>
   \<and> processItem sampleCatalogue
        \<lparr>rawDescription = ''0 o3-mini requests'', cents = Some 40\<rparr> ([], 0) = ([], 0)
   \<and> paddingMaxima [\<lparr>rawDescription = ''0 o3-mini requests'', cents = Some 40\<rparr>] \<noteq> None"
  using zero_count_lines_skipped
    [of sampleCatalogue "\<lparr>rawDescription = ''0 o3-mini requests'', cents = Some 40\<rparr>" "([], 0)"
        "\<lparr>responseItems = None, responseHasUnpaid = False\<rparr>"
        "[\<lparr>rawDescription = ''0 o3-mini requests'', cents = Some 40\<rparr>]"]
    zero_count_example
  by simp

section \<open>Properties of the snapshot and of the costs\<close>

lemma positiveTotal_acc:
  "foldl (\<lambda>sum item. if 0 < totalDollars item then sum + totalDollars item else sum) a xs
   = a + sumOfPositiveCosts xs"
  by (induction xs arbitrary: a) (simp_all add: sumOfPositiveCosts_def)

lemma positiveTotal_sum: "positiveTotal xs = sumOfPositiveCosts xs"
  by (simp add: positiveTotal_def positiveTotal_acc)

lemma actualTotalCost_invoice:
  "\<not> isTeamSpendData stats \<Longrightarrow>
   actualTotalCost stats = sumOfPositiveCosts (items (usageBasedPricing (activeMonthData stats)))"
  by (simp add: actualTotalCost_def useTeamSpendData_def positiveTotal_sum sumOfPositiveCosts_def)

lemma extractUserSpend_no_spendCents:
  "extractUserSpend ts uid = Inr us \<Longrightarrow> getProp us ''spendCents'' = Undefined"
  by (auto simp: extractUserSpend_def getProp_def split: option.splits)

lemma premiumSource_team:
  assumes "isTeamMember ti" "teamId ti = Some tid" "tid \<noteq> 0" "userId ti = Some uid" "uid \<noteq> 0"
    and "getTeamSpend w tid = Inr ts" "extractUserSpend ts uid = Inr us"
    and "teamUsageAnswer w = Inr u"
  shows "premiumSource w ti =
         Inr (\<lparr>current = numRequests (gpt4 u),
               limit = Some (case maxRequestUsage (gpt4 u) of
                               None \<Rightarrow> 500 | Some n \<Rightarrow> if n = 0 then 500 else n),
               premiumStartOfMonth = startOfMonth ti\<rparr>, True, Some 0)"
  using assms extractUserSpend_no_spendCents [OF assms(7)]
  by (simp add: premiumSource_def teamSpendBranch_def truthy_def numOr_def)

lemma premiumSource_team_branch_fails:
  assumes "teamId ti = Some tid"
    and "getTeamSpend w tid = Inl e
         \<or> (\<exists>ts. getTeamSpend w tid = Inr ts \<and> userId ti = Some uid
                \<and> extractUserSpend ts uid = Inl e)"
    and "individualUsageAnswer w = Inr u"
  shows "premiumSource w ti =
         Inr (\<lparr>current = numRequests (gpt4 u), limit = maxRequestUsage (gpt4 u),
               premiumStartOfMonth = usageStartOfMonth u\<rparr>, False, None)"
  using assms by (auto simp: premiumSource_def teamSpendBranch_def)

lemma premiumSource_not_member:
  assumes "\<not> isTeamMember ti" "individualUsageAnswer w = Inr u"
  shows "premiumSource w ti =
         Inr (\<lparr>current = numRequests (gpt4 u), limit = maxRequestUsage (gpt4 u),
               premiumStartOfMonth = usageStartOfMonth u\<rparr>, False, None)"
  using assms by (simp add: premiumSource_def)

lemma fetchCursorStats_premium:
  assumes "fst (checkTeamMembership w cache) = Inr ti" "premiumSource w ti = Inr (p, b, c)"
  shows "\<exists>stats. fetchCursorStats tr w cache = Inr stats \<and> premiumRequests stats = p
           \<and> isTeamSpendData stats = b \<and> teamSpendCents stats = c"
  using assms by (simp add: fetchCursorStats_def)

lemma teamsDown_membership:
  "fst (checkTeamMembership teamsDownWorld None) = Inl (RequestFailed ''teams'')"
  by code_simp

lemma spendDown_membership:
  "fst (checkTeamMembership spendDownWorld None)
   = Inr \<lparr>isTeamMember = True, teamId = Some 9, userId = Some 7,
          startOfMonth = \<lparr>getFullYear = 2024, getMonth = 0, getDate = 15, timeInDay = 0\<rparr>\<rparr>"
  by code_simp

lemma spendDown_spend: "getTeamSpend spendDownWorld 9 = Inl (RequestFailed ''spend'')"
  by code_simp

lemma spendDown_usage: "individualUsageAnswer spendDownWorld = Inr sampleUsage"
  by code_simp

lemma team_membership:
  "fst (checkTeamMembership teamWorld None)
   = Inr \<lparr>isTeamMember = True, teamId = Some 9, userId = Some 7,
          startOfMonth = \<lparr>getFullYear = 2024, getMonth = 0, getDate = 15, timeInDay = 0\<rparr>\<rparr>"
  by code_simp

lemma team_spend: "getTeamSpend teamWorld 9 = Inr sampleTeamSpend"
  by code_simp

lemma team_userSpend:
  "extractUserSpend sampleTeamSpend 7
   = Inr [(''userId'', Num 7), (''name'', Str ''Ada''), (''email'', Str ''ada@example.org''),
          (''role'', Str ''member''), (''hardLimitOverrideDollars'', Num 0),
          (''fastPremiumRequests'', Num 3)]"
  by code_simp

lemma team_usage: "teamUsageAnswer teamWorld = Inr sampleUsage"
  by code_simp

lemma solo_membership:
  "fst (checkTeamMembership soloWorld None)
   = Inr \<lparr>isTeamMember = False, teamId = None, userId = None,
          startOfMonth = \<lparr>getFullYear = 2024, getMonth = 0, getDate = 15, timeInDay = 0\<rparr>\<rparr>"
  by code_simp

lemma solo_usage: "individualUsageAnswer soloWorld = Inr sampleUsage"
  by code_simp

lemma sample_limit: "maxRequestUsage (gpt4 sampleUsage) = None"
  by code_simp

text \<open>
  C2, as amended. A failure of the team-membership lookup is raised again by
  \<open>fetchCursorStats\<close>: no snapshot is produced. A failure of the team-spend lookup (the request
  fails, or the payload has no entry for the user) is caught: whenever the membership lookup
  answered and the individual usage request succeeds, a snapshot is produced that is not
  team-sourced and carries no team spend, and its total cost is the sum of the positive costs
  of the items of the active period.
\<close>

theorem team_spend_failure_falls_back:
  "(fst (checkTeamMembership w cache) = Inl e \<longrightarrow> fetchCursorStats tr w cache = Inl e)
   \<and> (fst (checkTeamMembership w cache) = Inr ti \<and> teamId ti = Some tid
        \<and> (getTeamSpend w tid = Inl e'
            \<or> (\<exists>ts. getTeamSpend w tid = Inr ts \<and> userId ti = Some uid
                   \<and> extractUserSpend ts uid = Inl e'))
        \<and> individualUsageAnswer w = Inr u
      \<longrightarrow> (\<exists>stats. fetchCursorStats tr w cache = Inr stats
            \<and> \<not> isTeamSpendData stats \<and> teamSpendCents stats = None
            \<and> actualTotalCost stats
                = sumOfPositiveCosts (items (usageBasedPricing (activeMonthData stats)))))"
proof (intro conjI impI)
  assume "fst (checkTeamMembership w cache) = Inl e"
  then show "fetchCursorStats tr w cache = Inl e"
    by (simp add: fetchCursorStats_def)
next
  assume h: "fst (checkTeamMembership w cache) = Inr ti \<and> teamId ti = Some tid
        \<and> (getTeamSpend w tid = Inl e'
            \<or> (\<exists>ts. getTeamSpend w tid = Inr ts \<and> userId ti = Some uid
                   \<and> extractUserSpend ts uid = Inl e'))
        \<and> individualUsageAnswer w = Inr u"
  then have "premiumSource w ti =
         Inr (\<lparr>current = numRequests (gpt4 u), limit = maxRequestUsage (gpt4 u),
               premiumStartOfMonth = usageStartOfMonth u\<rparr>, False, None)"
    using premiumSource_team_branch_fails [of ti tid w e' uid u] by blast
  with h obtain stats where s: "fetchCursorStats tr w cache = Inr stats"
      "isTeamSpendData stats = False" "teamSpendCents stats = None"
    using fetchCursorStats_premium by blast
  then show "\<exists>stats. fetchCursorStats tr w cache = Inr stats
            \<and> \<not> isTeamSpendData stats \<and> teamSpendCents stats = None
            \<and> actualTotalCost stats
                = sumOfPositiveCosts (items (usageBasedPricing (activeMonthData stats)))"
    using actualTotalCost_invoice [of stats] by auto
qed

text \<open>The sample worlds whose team-spend request fails and whose teams request fails.\<close>

theorem team_spend_failure_falls_back_witness:
  "getTeamSpend spendDownWorld 9 = Inl (RequestFailed ''spend'')
   \<and> (\<exists>stats. fetchCursorStats sampleCatalogue spendDownWorld None = Inr stats
            \<and> \<not> isTeamSpendData stats \<and> teamSpendCents stats = None
            \<and> actualTotalCost stats
                = sumOfPositiveCosts (items (usageBasedPricing (activeMonthData stats))))
   \<and> fst (checkTeamMembership teamsDownWorld None) = Inl (RequestFailed ''teams'')
   \<and> fetchCursorStats sampleCatalogue teamsDownWorld None = Inl (RequestFailed ''teams'')"
  using team_spend_failure_falls_back
       [where w = spendDownWorld and cache = None and tr = sampleCatalogue and tid = 9
        and e' = "RequestFailed ''spend''" and u = sampleUsage
        and ti = "\<lparr>isTeamMember = True, teamId = Some 9, userId = Some 7,
          startOfMonth = \<lparr>getFullYear = 2024, getMonth = 0, getDate = 15, timeInDay = 0\<rparr>\<rparr>"]
    team_spend_failure_falls_back
       [where w = teamsDownWorld and cache = None and tr = sampleCatalogue
        and e = "RequestFailed ''teams''"]
    spendDown_membership spendDown_spend spendDown_usage teamsDown_membership
  by simp

text \<open>
  C2 as stated fails: in the sample world whose request for the list of teams fails, the
  individual usage is available, the membership lookup raises, and so does the computation.
\<close>

theorem membership_failure_is_fatal_counterexample:
  "individualUsageAnswer teamsDownWorld = Inr sampleUsage
   \<and> fst (checkTeamMembership teamsDownWorld None) = Inl (RequestFailed ''teams'')
   \<and> fetchCursorStats sampleCatalogue teamsDownWorld None = Inl (RequestFailed ''teams'')"
  by code_simp

lemma team_path_spend_is_zero:
  assumes "fst (checkTeamMembership w cache) = Inr ti" "isTeamMember ti"
    and "teamId ti = Some tid" "tid \<noteq> 0" "userId ti = Some uid" "uid \<noteq> 0"
    and "getTeamSpend w tid = Inr ts" "extractUserSpend ts uid = Inr us"
    and "teamUsageAnswer w = Inr u"
  shows "\<exists>stats. fetchCursorStats tr w cache = Inr stats \<and> isTeamSpendData stats
           \<and> current (premiumRequests stats) = numRequests (gpt4 u)
           \<and> teamSpendCents stats = Some 0 \<and> actualTotalCost stats = 0"
proof -
  have "premiumSource w ti =
         Inr (\<lparr>current = numRequests (gpt4 u),
               limit = Some (case maxRequestUsage (gpt4 u) of
                               None \<Rightarrow> 500 | Some n \<Rightarrow> if n = 0 then 500 else n),
               premiumStartOfMonth = startOfMonth ti\<rparr>, True, Some 0)"
    using assms(2-9) by (rule premiumSource_team)
  with assms(1) obtain stats where s: "fetchCursorStats tr w cache = Inr stats"
      "current (premiumRequests stats) = numRequests (gpt4 u)"
      "isTeamSpendData stats" "teamSpendCents stats = Some 0"
    using fetchCursorStats_premium [of w cache ti _ True "Some 0" tr] by auto
  then have "actualTotalCost stats = 0"
    by (simp add: actualTotalCost_def useTeamSpendData_def)
  with s show ?thesis by blast
qed

text \<open>
  C3, evaluated where the code departs from it. In the sample world the user is member 7 of
  team 9 and the team-spend payload reports 1234 cents for that user. The snapshot is
  team-sourced and its request counters come from the individual usage (42 requests, the
  limit defaulted to 500), but the team spend of the snapshot is 0 and so is the total cost:
  the object that \<open>extractUserSpend\<close> returns has no property \<open>spendCents\<close>, which
  \<open>fetchCursorStats\<close> reads.
\<close>

theorem team_spend_cents_dropped:
  "map spendCents (teamMemberSpend sampleTeamSpend) = [Some 1234]
   \<and> (case fetchCursorStats sampleCatalogue teamWorld None of
        Inl e \<Rightarrow> False
      | Inr stats \<Rightarrow>
          isTeamSpendData stats \<and> current (premiumRequests stats) = 42
          \<and> limit (premiumRequests stats) = Some 500
          \<and> teamSpendCents stats = Some 0 \<and> actualTotalCost stats = 0)"
  by code_simp

lemma processItem_payment_nonneg:
  "0 \<le> snd st \<Longrightarrow> 0 \<le> snd (processItem tr item st)"
  by (cases st) (auto simp: processItem_def Let_def split: option.splits if_splits)

lemma fold_processItem_payment_nonneg:
  "0 \<le> snd st \<Longrightarrow> 0 \<le> snd (fold (processItem tr) rs st)"
  by (induction rs arbitrary: st) (simp_all add: processItem_payment_nonneg)

lemma fetchMonthData_payment_nonneg:
  assumes "fetchMonthData tr response = Inr d"
  shows "0 \<le> midMonthPayment d"
proof (cases response)
  case (Inl e)
  with assms show ?thesis by (simp add: fetchMonthData_def)
next
  case (Inr r)
  have "0 \<le> snd (fold (processItem tr) (case responseItems r of None \<Rightarrow> [] | Some xs \<Rightarrow> xs) ([], 0))"
    by (rule fold_processItem_payment_nonneg) simp
  with assms Inr show ?thesis
    by (auto simp: fetchMonthData_def split: prod.splits)
qed

lemma monthDataOrEmpty_payment_nonneg:
  "0 \<le> midMonthPayment (usageBasedPricing (monthDataOrEmpty tr w p))"
proof (cases "fetchMonthData tr (invoiceAnswer w (getMonth p + 1) (getFullYear p))")
  case (Inl e)
  then show ?thesis by (simp add: monthDataOrEmpty_def emptyMonthData_def)
next
  case (Inr d)
  then show ?thesis
    using fetchMonthData_payment_nonneg [OF Inr] by (simp add: monthDataOrEmpty_def)
qed

lemma teamSpendBranch_spend_zero:
  "teamSpendBranch w ti tid uid = Some (p, c) \<Longrightarrow> c = 0"
  by (auto simp: teamSpendBranch_def numOr_def dest: extractUserSpend_no_spendCents
      split: sum.splits)

lemma premiumSource_spend:
  assumes "premiumSource w ti = Inr (p, b, c)"
  shows "c = (if b then Some 0 else None)"
proof (cases "if isTeamMember ti \<and> truthy (teamId ti) \<and> truthy (userId ti)
            then teamSpendBranch w ti
                   (case teamId ti of Some t \<Rightarrow> t | None \<Rightarrow> 0)
                   (case userId ti of Some u \<Rightarrow> u | None \<Rightarrow> 0)
            else None")
  case None
  with assms show ?thesis
    by (auto simp: premiumSource_def split: sum.splits)
next
  case (Some pc)
  obtain p' c' where pc: "pc = (p', c')" by (cases pc)
  with Some have "teamSpendBranch w ti
                   (case teamId ti of Some t \<Rightarrow> t | None \<Rightarrow> 0)
                   (case userId ti of Some u \<Rightarrow> u | None \<Rightarrow> 0) = Some (p', c')"
    by (auto split: if_splits)
  then have "c' = 0" by (rule teamSpendBranch_spend_zero)
  with assms Some pc show ?thesis
    by (simp add: premiumSource_def)
qed

lemma fetchCursorStats_shape:
  assumes "fetchCursorStats tr w cache = Inr stats"
  shows "teamSpendCents stats = (if isTeamSpendData stats then Some 0 else None)
         \<and> 0 \<le> midMonthPayment (usageBasedPricing (currentMonth stats))
         \<and> 0 \<le> midMonthPayment (usageBasedPricing (lastMonth stats))"
proof (cases "fst (checkTeamMembership w cache)")
  case (Inl e)
  with assms show ?thesis by (simp add: fetchCursorStats_def)
next
  case ti: (Inr ti)
  show ?thesis
  proof (cases "premiumSource w ti")
    case (Inl e)
    with assms ti show ?thesis by (simp add: fetchCursorStats_def)
  next
    case (Inr x)
    obtain p b c where x: "x = (p, b, c)" by (cases x)
    from Inr x have "c = (if b then Some 0 else None)"
      using premiumSource_spend by blast
    with assms ti Inr x show ?thesis
      by (auto simp: fetchCursorStats_def monthDataOrEmpty_payment_nonneg)
  qed
qed

lemma activeMonthData_payment_nonneg:
  assumes "fetchCursorStats tr w cache = Inr stats"
  shows "0 \<le> midMonthPayment (usageBasedPricing (activeMonthData stats))"
  using fetchCursorStats_shape [OF assms] by (simp add: activeMonthData_def)

lemma solo_run:
  "(case fetchCursorStats sampleCatalogue soloWorld None of
      Inl e \<Rightarrow> False
    | Inr stats \<Rightarrow> unpaidAmount stats = Some (494 / 100) \<and> \<not> isTeamSpendData stats)"
  by code_simp

lemma team_run:
  "(case fetchCursorStats sampleCatalogue teamWorld None of
      Inl e \<Rightarrow> False
    | Inr stats \<Rightarrow> unpaidAmount stats = Some 0 \<and> isTeamSpendData stats)"
  by code_simp

lemma premiumSource_individual:
  assumes "premiumSource w ti = Inr (p, False, c)" "individualUsageAnswer w = Inr u"
  shows "p = \<lparr>current = numRequests (gpt4 u), limit = maxRequestUsage (gpt4 u),
               premiumStartOfMonth = usageStartOfMonth u\<rparr>"
proof (cases "if isTeamMember ti \<and> truthy (teamId ti) \<and> truthy (userId ti)
            then teamSpendBranch w ti
                   (case teamId ti of Some t \<Rightarrow> t | None \<Rightarrow> 0)
                   (case userId ti of Some u \<Rightarrow> u | None \<Rightarrow> 0)
            else None")
  case None
  with assms show ?thesis by (simp add: premiumSource_def)
next
  case (Some pc)
  with assms(1) show ?thesis by (cases pc) (simp add: premiumSource_def)
qed

lemma fetchCursorStats_fallback_limit:
  assumes "fst (checkTeamMembership w cache) = Inr ti" "individualUsageAnswer w = Inr u"
    and "fetchCursorStats tr w cache = Inr stats" "\<not> isTeamSpendData stats"
  shows "limit (premiumRequests stats) = maxRequestUsage (gpt4 u)
         \<and> current (premiumRequests stats) = numRequests (gpt4 u)"
proof (cases "premiumSource w ti")
  case (Inl e)
  with assms(1,3) show ?thesis by (simp add: fetchCursorStats_def)
next
  case (Inr x)
  obtain p b c where x: "x = (p, b, c)" by (cases x)
  from assms(1,3,4) Inr x have b: "b = False" and p: "premiumRequests stats = p"
    by (auto simp: fetchCursorStats_def)
  from Inr x b have "premiumSource w ti = Inr (p, False, c)" by simp
  from premiumSource_individual [OF this assms(2)] p show ?thesis by simp
qed

lemma teamSpendBranch_fails:
  assumes "teamUsageAnswer w = Inl e1
           \<or> getTeamSpend w tid = Inl e2
           \<or> (\<exists>ts. getTeamSpend w tid = Inr ts \<and> extractUserSpend ts uid = Inl e2)"
  shows "teamSpendBranch w ti tid uid = None"
  using assms by (auto simp: teamSpendBranch_def split: sum.splits)

lemma premiumSource_fallback_entries:
  assumes "individualUsageAnswer w = Inr u"
    and "\<not> isTeamMember ti \<or> \<not> truthy (teamId ti) \<or> \<not> truthy (userId ti)
         \<or> teamUsageAnswer w = Inl e1
         \<or> (teamId ti = Some tid
             \<and> (getTeamSpend w tid = Inl e2
                 \<or> (\<exists>ts. getTeamSpend w tid = Inr ts \<and> userId ti = Some uid
                        \<and> extractUserSpend ts uid = Inl e2)))"
  shows "premiumSource w ti =
         Inr (\<lparr>current = numRequests (gpt4 u), limit = maxRequestUsage (gpt4 u),
               premiumStartOfMonth = usageStartOfMonth u\<rparr>, False, None)"
proof -
  have "(if isTeamMember ti \<and> truthy (teamId ti) \<and> truthy (userId ti)
            then teamSpendBranch w ti
                   (case teamId ti of Some t \<Rightarrow> t | None \<Rightarrow> 0)
                   (case userId ti of Some u \<Rightarrow> u | None \<Rightarrow> 0)
            else None) = None"
    using assms(2) teamSpendBranch_fails [of w e1 _ e2 _ ti] by auto
  with assms(1) show ?thesis by (simp add: premiumSource_def)
qed

lemma spendDown_run:
  "(case fetchCursorStats sampleCatalogue spendDownWorld None of
      Inl e \<Rightarrow> False
    | Inr stats \<Rightarrow> \<not> isTeamSpendData stats)"
  by code_simp

text \<open>
  C4. For every snapshot that \<open>fetchCursorStats\<close> returns, whenever the unpaid amount is
  computed it is the larger of 0 and the total cost minus the mid-month payment; it is never
  negative and it is 0 when the total cost is below the mid-month payment. (For a
  team-sourced snapshot the program sets the unpaid amount to 0 without the formula; the team
  spend that such a snapshot carries is 0 and a mid-month payment is never negative, so the
  formula gives 0 as well.)
\<close>

theorem unpaid_amount_formula:
  assumes "fetchCursorStats tr w cache = Inr stats" and "unpaidAmount stats = Some u"
  shows "u = max 0 (actualTotalCost stats
                    - midMonthPayment (usageBasedPricing (activeMonthData stats)))
         \<and> 0 \<le> u
         \<and> (actualTotalCost stats < midMonthPayment (usageBasedPricing (activeMonthData stats))
              \<longrightarrow> u = 0)"
proof (cases "useTeamSpendData stats")
  case False
  with assms(2) show ?thesis
    by (auto simp: unpaidAmount_def split: if_splits)
next
  case True
  then have "teamSpendCents stats = Some 0"
    using fetchCursorStats_shape [OF assms(1)] by (simp add: useTeamSpendData_def)
  with True have total: "actualTotalCost stats = 0"
    by (simp add: actualTotalCost_def)
  have u: "u = 0"
    using assms(2) True by (auto simp: unpaidAmount_def split: if_splits)
  from activeMonthData_payment_nonneg [OF assms(1)] total u show ?thesis
    by simp
qed

text \<open>The individual sample world: 9.94 of cost, 5 paid, 4.94 unpaid. The team sample
  world: 0 unpaid.\<close>

theorem unpaid_amount_formula_witness:
  "(\<exists>stats. fetchCursorStats sampleCatalogue soloWorld None = Inr stats
      \<and> unpaidAmount stats = Some (494 / 100)
      \<and> 494 / 100 = max 0 (actualTotalCost stats
                    - midMonthPayment (usageBasedPricing (activeMonthData stats))))
   \<and> (\<exists>stats. fetchCursorStats sampleCatalogue teamWorld None = Inr stats
      \<and> isTeamSpendData stats \<and> unpaidAmount stats = Some 0
      \<and> 0 = max 0 (actualTotalCost stats
                    - midMonthPayment (usageBasedPricing (activeMonthData stats))))"
proof -
  obtain s1 where s1: "fetchCursorStats sampleCatalogue soloWorld None = Inr s1"
      "unpaidAmount s1 = Some (494 / 100)"
    using solo_run by (cases "fetchCursorStats sampleCatalogue soloWorld None") auto
  obtain s2 where s2: "fetchCursorStats sampleCatalogue teamWorld None = Inr s2"
      "unpaidAmount s2 = Some 0" "isTeamSpendData s2"
    using team_run by (cases "fetchCursorStats sampleCatalogue teamWorld None") auto
  from unpaid_amount_formula [OF s1] unpaid_amount_formula [OF s2(1,2)] s1 s2 show ?thesis by blast
qed

text \<open>
  C10. On the team path the limit of the premium requests is the \<open>maxRequestUsage\<close> of the
  individual usage, or 500 when that is missing or 0. Every snapshot that is not team-sourced,
  whichever way the fallback was entered, has the \<open>maxRequestUsage\<close> as it is, missing or 0
  included; the fallback is entered, and such a snapshot produced, when the user is not a team
  member, when a team or team user id is missing or 0, and when the team spend request, the
  search for the user in its answer or the usage request of the team path fails. So one usage
  payload can give different limits on the two paths.
\<close>

theorem premium_limit_default_differs:
  "(fst (checkTeamMembership w cache) = Inr ti \<and> isTeamMember ti
      \<and> teamId ti = Some tid \<and> tid \<noteq> 0 \<and> userId ti = Some uid \<and> uid \<noteq> 0
      \<and> getTeamSpend w tid = Inr ts \<and> extractUserSpend ts uid = Inr us
      \<and> teamUsageAnswer w = Inr u
    \<longrightarrow> (\<exists>stats. fetchCursorStats tr w cache = Inr stats \<and> isTeamSpendData stats
          \<and> limit (premiumRequests stats)
              = Some (case maxRequestUsage (gpt4 u) of
                        None \<Rightarrow> 500 | Some n \<Rightarrow> if n = 0 then 500 else n)))
   \<and> (fst (checkTeamMembership w' cache') = Inr ti' \<and> individualUsageAnswer w' = Inr u
      \<and> fetchCursorStats tr w' cache' = Inr stats' \<and> \<not> isTeamSpendData stats'
    \<longrightarrow> limit (premiumRequests stats') = maxRequestUsage (gpt4 u))
   \<and> (fst (checkTeamMembership w' cache') = Inr ti' \<and> individualUsageAnswer w' = Inr u
      \<and> (\<not> isTeamMember ti' \<or> \<not> truthy (teamId ti') \<or> \<not> truthy (userId ti')
          \<or> teamUsageAnswer w' = Inl e1
          \<or> (teamId ti' = Some tid'
              \<and> (getTeamSpend w' tid' = Inl e2
                  \<or> (\<exists>ts. getTeamSpend w' tid' = Inr ts \<and> userId ti' = Some uid'
                         \<and> extractUserSpend ts uid' = Inl e2))))
    \<longrightarrow> (\<exists>stats. fetchCursorStats tr w' cache' = Inr stats \<and> \<not> isTeamSpendData stats
          \<and> limit (premiumRequests stats) = maxRequestUsage (gpt4 u)))"
proof (intro conjI impI)
  assume h: "fst (checkTeamMembership w cache) = Inr ti \<and> isTeamMember ti
      \<and> teamId ti = Some tid \<and> tid \<noteq> 0 \<and> userId ti = Some uid \<and> uid \<noteq> 0
      \<and> getTeamSpend w tid = Inr ts \<and> extractUserSpend ts uid = Inr us
      \<and> teamUsageAnswer w = Inr u"
  then have "premiumSource w ti =
         Inr (\<lparr>current = numRequests (gpt4 u),
               limit = Some (case maxRequestUsage (gpt4 u) of
                               None \<Rightarrow> 500 | Some n \<Rightarrow> if n = 0 then 500 else n),
               premiumStartOfMonth = startOfMonth ti\<rparr>, True, Some 0)"
    by (simp add: premiumSource_team)
  with h show "\<exists>stats. fetchCursorStats tr w cache = Inr stats \<and> isTeamSpendData stats
          \<and> limit (premiumRequests stats)
              = Some (case maxRequestUsage (gpt4 u) of
                        None \<Rightarrow> 500 | Some n \<Rightarrow> if n = 0 then 500 else n)"
    using fetchCursorStats_premium [of w cache ti _ True "Some 0" tr] by auto
next
  assume "fst (checkTeamMembership w' cache') = Inr ti' \<and> individualUsageAnswer w' = Inr u
      \<and> fetchCursorStats tr w' cache' = Inr stats' \<and> \<not> isTeamSpendData stats'"
  then show "limit (premiumRequests stats') = maxRequestUsage (gpt4 u)"
    using fetchCursorStats_fallback_limit [of w' cache' ti' u tr stats'] by blast
next
  assume h: "fst (checkTeamMembership w' cache') = Inr ti' \<and> individualUsageAnswer w' = Inr u
      \<and> (\<not> isTeamMember ti' \<or> \<not> truthy (teamId ti') \<or> \<not> truthy (userId ti')
          \<or> teamUsageAnswer w' = Inl e1
          \<or> (teamId ti' = Some tid'
              \<and> (getTeamSpend w' tid' = Inl e2
                  \<or> (\<exists>ts. getTeamSpend w' tid' = Inr ts \<and> userId ti' = Some uid'
                         \<and> extractUserSpend ts uid' = Inl e2))))"
  then have "premiumSource w' ti' =
         Inr (\<lparr>current = numRequests (gpt4 u), limit = maxRequestUsage (gpt4 u),
               premiumStartOfMonth = usageStartOfMonth u\<rparr>, False, None)"
    using premiumSource_fallback_entries [of w' u ti' e1 tid' e2 uid'] by blast
  with h show "\<exists>stats. fetchCursorStats tr w' cache' = Inr stats \<and> \<not> isTeamSpendData stats
          \<and> limit (premiumRequests stats) = maxRequestUsage (gpt4 u)"
    using fetchCursorStats_premium [of w' cache' ti' _ False None tr] by auto
qed

text \<open>The sample usage has no \<open>maxRequestUsage\<close>: 500 for the team member, none for the
  user without a team and none for the team member whose team spend request fails.\<close>

theorem premium_limit_default_differs_witness:
  "(\<exists>stats. fetchCursorStats sampleCatalogue teamWorld None = Inr stats \<and> isTeamSpendData stats
          \<and> limit (premiumRequests stats) = Some 500)
   \<and> (\<exists>stats. fetchCursorStats sampleCatalogue soloWorld None = Inr stats \<and> \<not> isTeamSpendData stats
          \<and> limit (premiumRequests stats) = None)
   \<and> (\<exists>stats. fetchCursorStats sampleCatalogue spendDownWorld None = Inr stats
          \<and> \<not> isTeamSpendData stats \<and> limit (premiumRequests stats) = None)
   \<and> teamUsageAnswer teamWorld = Inr sampleUsage
   \<and> individualUsageAnswer soloWorld = Inr sampleUsage
   \<and> individualUsageAnswer spendDownWorld = Inr sampleUsage"
proof -
  have a: "\<exists>stats. fetchCursorStats sampleCatalogue teamWorld None = Inr stats \<and> isTeamSpendData stats
          \<and> limit (premiumRequests stats) = Some 500"
    using premium_limit_default_differs [where w = teamWorld and cache = None and tr = sampleCatalogue and tid = 9 and uid = 7
        and ts = sampleTeamSpend and u = sampleUsage
        and us = "[(''userId'', Num 7), (''name'', Str ''Ada''), (''email'', Str ''ada@example.org''),
          (''role'', Str ''member''), (''hardLimitOverrideDollars'', Num 0),
          (''fastPremiumRequests'', Num 3)]"
        and ti = "\<lparr>isTeamMember = True, teamId = Some 9, userId = Some 7,
          startOfMonth = \<lparr>getFullYear = 2024, getMonth = 0, getDate = 15, timeInDay = 0\<rparr>\<rparr>"]
      team_membership team_spend team_userSpend team_usage sample_limit
    by simp
  have b: "\<exists>stats. fetchCursorStats sampleCatalogue soloWorld None = Inr stats \<and> \<not> isTeamSpendData stats
          \<and> limit (premiumRequests stats) = None"
    using premium_limit_default_differs [where w' = soloWorld and cache' = None and tr = sampleCatalogue and u = sampleUsage
        and ti' = "\<lparr>isTeamMember = False, teamId = None, userId = None,
          startOfMonth = \<lparr>getFullYear = 2024, getMonth = 0, getDate = 15, timeInDay = 0\<rparr>\<rparr>"]
      solo_membership solo_usage sample_limit
    by simp
  obtain s where s: "fetchCursorStats sampleCatalogue spendDownWorld None = Inr s"
      "\<not> isTeamSpendData s"
    using spendDown_run by (cases "fetchCursorStats sampleCatalogue spendDownWorld None") auto
  have "limit (premiumRequests s) = maxRequestUsage (gpt4 sampleUsage)"
    using premium_limit_default_differs [where w' = spendDownWorld and cache' = None and tr = sampleCatalogue
        and u = sampleUsage and stats' = s
        and ti' = "\<lparr>isTeamMember = True, teamId = Some 9, userId = Some 7,
          startOfMonth = \<lparr>getFullYear = 2024, getMonth = 0, getDate = 15, timeInDay = 0\<rparr>\<rparr>"]
      spendDown_membership spendDown_usage s
    by blast
  with s sample_limit have c: "\<exists>stats. fetchCursorStats sampleCatalogue spendDownWorld None = Inr stats
          \<and> \<not> isTeamSpendData stats \<and> limit (premiumRequests stats) = None"
    by auto
  from a b c team_usage solo_usage spendDown_usage show ?thesis by blast
qed

section \<open>Properties of the membership cache\<close>






lemma freshLookup_failure_keeps_cache:
  "fst (freshLookup w cache) = Inl e \<Longrightarrow> fst (snd (freshLookup w cache)) = cache"
  by (auto simp: freshLookup_def split: sum.splits prod.splits)











section \<open>Properties of the unknown-model detector\<close>

lemma updateStats_shown:
  assumes "unknownModelNotificationShown det"
  shows "snd (updateStats fetched det) = None
         \<and> unknownModelNotificationShown (fst (updateStats fetched det))"
  using assms by (cases fetched) (simp_all add: updateStats_def Let_def)

lemma updateStats_notifies:
  assumes "updateStats fetched det = (det', Some shown)"
  shows "unknownModelNotificationShown det'"
  using assms by (cases fetched) (auto simp: updateStats_def Let_def split: if_splits)

lemma refreshCycles_shown:
  "unknownModelNotificationShown det \<Longrightarrow> refreshCycles cycles det = []"
proof (induction cycles arbitrary: det)
  case Nil
  then show ?case by simp
next
  case (Cons fetched cycles)
  obtain det' r where u: "updateStats fetched det = (det', r)"
    by (cases "updateStats fetched det")
  from updateStats_shown [OF Cons.prems, of fetched] u
  have "r = None" and "unknownModelNotificationShown det'" by simp_all
  with Cons.IH [of det'] u show ?case by simp
qed

lemma refreshCycles_once: "length (refreshCycles cycles det) \<le> 1"
proof (induction cycles arbitrary: det)
  case Nil
  then show ?case by simp
next
  case (Cons fetched cycles)
  obtain det' r where u: "updateStats fetched det = (det', r)"
    by (cases "updateStats fetched det")
  show ?case
  proof (cases r)
    case None
    with u Cons.IH [of det'] show ?thesis by simp
  next
    case (Some shown)
    with u have "unknownModelNotificationShown det'"
      using updateStats_notifies by blast
    then have "refreshCycles cycles det' = []"
      by (rule refreshCycles_shown)
    with u Some show ?thesis by simp
  qed
qed

lemma recordTerm_present: "alreadyPresent models tm \<Longrightarrow> recordTerm tm models = models"
  by (simp add: recordTerm_def)

lemma recordTerm_cases:
  "recordTerm tm models = models
   \<or> (recordTerm tm models = models @ [tm] \<and> \<not> alreadyPresent models tm)"
  by (simp add: recordTerm_def)

lemma glorbo_terms: "recordTerm ''glorbo-7-mini'' (recordTerm ''glorbo-7'' []) = [''glorbo-7'']"
  by code_simp

lemma glorbo_terms_reversed:
  "recordTerm ''glorbo-7'' (recordTerm ''glorbo-7-mini'' []) = [''glorbo-7-mini'']"
  by code_simp

lemma glorbo_items: "fold detectItem [glorboItem, glorboMiniItem] [] = [''glorbo-7'']"
  by code_simp

text \<open>
  C8. The detector records a term only when no recorded term contains it or is contained in
  it, whatever the case: the terms \<open>glorbo-7\<close> then \<open>glorbo-7-mini\<close> (in either order, and
  also as extracted from two flagged items) leave exactly one entry. Over any sequence of
  refresh cycles, from any state of the detector, the notification is shown at most once, and
  never again once the flag is set.
\<close>

theorem unknown_models_deduplicated_and_reported_once:
  "recordTerm ''glorbo-7-mini'' (recordTerm ''glorbo-7'' []) = [''glorbo-7'']
   \<and> recordTerm ''glorbo-7'' (recordTerm ''glorbo-7-mini'' []) = [''glorbo-7-mini'']
   \<and> fold detectItem [glorboItem, glorboMiniItem] [] = [''glorbo-7'']
   \<and> (alreadyPresent models tm \<longrightarrow> recordTerm tm models = models)
   \<and> (recordTerm tm models = models
       \<or> (recordTerm tm models = models @ [tm] \<and> \<not> alreadyPresent models tm))
   \<and> length (refreshCycles cycles det) \<le> 1
   \<and> (unknownModelNotificationShown det \<longrightarrow> refreshCycles cycles det = [])"
  using glorbo_terms glorbo_terms_reversed glorbo_items recordTerm_present [of models tm]
    recordTerm_cases [of tm models] refreshCycles_once [of cycles det]
    refreshCycles_shown [of det cycles]
  by blast

lemma present_example: "alreadyPresent [''glorbo-7''] ''GLORBO-7-mini''"
  by code_simp

text \<open>A term that differs in case from a recorded one and extends it is not recorded; with
  the flag set, further cycles show nothing.\<close>

theorem unknown_models_deduplicated_and_reported_once_witness:
  "alreadyPresent [''glorbo-7''] ''GLORBO-7-mini''
   \<and> recordTerm ''GLORBO-7-mini'' [''glorbo-7''] = [''glorbo-7'']
   \<and> length (refreshCycles [Inr glorboStats, Inr glorboStats, Inr glorboStats] initialDetector) \<le> 1
   \<and> refreshCycles [Inr glorboStats, Inr glorboStats]
        \<lparr>unknownModelNotificationShown = True, detectedUnknownModels = [''glorbo-7'']\<rparr> = []"
proof -
  have a: "recordTerm ''GLORBO-7-mini'' [''glorbo-7''] = [''glorbo-7'']"
    using unknown_models_deduplicated_and_reported_once [where models = "[''glorbo-7'']" and tm = "''GLORBO-7-mini''"] present_example
    by blast
  have b: "refreshCycles [Inr glorboStats, Inr glorboStats]
        \<lparr>unknownModelNotificationShown = True, detectedUnknownModels = [''glorbo-7'']\<rparr> = []"
    using unknown_models_deduplicated_and_reported_once [where cycles = "[Inr glorboStats, Inr glorboStats]"
        and det = "\<lparr>unknownModelNotificationShown = True, detectedUnknownModels = [''glorbo-7'']\<rparr>"]
    by simp
  have c: "length (refreshCycles [Inr glorboStats, Inr glorboStats, Inr glorboStats] initialDetector) \<le> 1"
    using unknown_models_deduplicated_and_reported_once [where cycles = "[Inr glorboStats, Inr glorboStats, Inr glorboStats]"
        and det = initialDetector]
    by blast
  from a b c present_example show ?thesis by blast
qed


end
